theory Spec2Isabelle
  imports Complex_Main
begin

section \<open>JavaScript values reaching the server actions\<close>

text \<open>
  A JavaScript number is NaN, an infinity or a finite double; every finite double is a
  rational, and only the order of numbers matters to the schemas below.
\<close>

datatype jsnum = NaN | NegInfinity | Finite rat | PosInfinity

datatype jsval = Undefined | Null | Str string | Num jsnum | FileObject

text \<open>An object literal with string keys, in insertion order.\<close>

type_synonym object = "(string \<times> jsval) list"

fun lookup :: "object \<Rightarrow> string \<Rightarrow> jsval" where
  "lookup [] k = Undefined"
| "lookup ((k', v) # kvs) k = (if k' = k then v else lookup kvs k)"

text \<open>
  \<open>FormData\<close>: an ordered list of named entries, each a string or a file.
  \<open>formData.get(name)\<close> is the first entry of that name, or \<open>null\<close>.
\<close>

datatype FormDataEntryValue = TextEntry string | FileEntry

type_synonym FormData = "(string \<times> FormDataEntryValue) list"

fun get :: "FormData \<Rightarrow> string \<Rightarrow> jsval" where
  "get [] name = Null"
| "get ((n, TextEntry s) # es) name = (if n = name then Str s else get es name)"
| "get ((n, FileEntry) # es) name = (if n = name then FileObject else get es name)"

section \<open>The product of two numbers\<close>

text \<open>
  A finite double is \<open>m * 2 ^ q\<close> with \<open>\<bar>m\<bar> < 2 ^ 53\<close> and \<open>q \<ge> -1074\<close>, below
  \<open>2 ^ 1024\<close> in size. The result of an operation is its exact value rounded to the
  nearest double, to the one with an even \<open>m\<close> when two are equally near, and to an
  infinity when the rounded size reaches \<open>2 ^ 1024\<close>, that is when its \<open>floor_log2\<close> is
  1024 or more. The two zeros are not told apart.
\<close>

function ilog2 :: "int \<Rightarrow> int" where
  "ilog2 n = (if n < 2 then 0 else 1 + ilog2 (n div 2))"
  by pat_completeness auto
termination
  by (relation "measure nat") auto

declare ilog2.simps [simp del]

definition pow2 :: "int \<Rightarrow> rat" where
  "pow2 k = (if 0 \<le> k then 2 ^ nat k else 1 / 2 ^ nat (- k))"

text \<open>The \<open>e\<close> with \<open>2 ^ e \<le> a < 2 ^ (e + 1)\<close>, for a positive \<open>a\<close>.\<close>

definition floor_log2 :: "rat \<Rightarrow> int" where
  "floor_log2 a =
     (if 1 \<le> a then ilog2 \<lfloor>a\<rfloor>
      else (let b = 1 / a; k = ilog2 \<lfloor>b\<rfloor>
            in if b = pow2 k then - k else - k - 1))"

definition round_half_even :: "rat \<Rightarrow> int" where
  "round_half_even x =
     (let n = \<lfloor>x\<rfloor>; f = x - of_int n
      in if f < 1 / 2 then n
         else if 1 / 2 < f then n + 1
         else if even n then n else n + 1)"

definition round_to_double :: "rat \<Rightarrow> jsnum" where
  "round_to_double r =
     (if r = 0 then Finite 0
      else (let a = \<bar>r\<bar>;
                q = max (floor_log2 a - 52) (- 1074);
                v = of_int (round_half_even (a / pow2 q)) * pow2 q
            in if 1024 \<le> floor_log2 v then (if r < 0 then NegInfinity else PosInfinity)
               else Finite (if r < 0 then - v else v)))"

fun sign :: "jsnum \<Rightarrow> int" where
  "sign NaN = 0"
| "sign NegInfinity = - 1"
| "sign (Finite x) = (if x < 0 then - 1 else if x = 0 then 0 else 1)"
| "sign PosInfinity = 1"

text \<open>
  \<open>a * b\<close> on numbers: NaN if one side is NaN or if an infinity meets zero, an infinity
  of the product's sign if one side is an infinity, else the rounded product.
\<close>

fun multiply :: "jsnum \<Rightarrow> jsnum \<Rightarrow> jsnum" where
  "multiply NaN b = NaN"
| "multiply a NaN = NaN"
| "multiply (Finite x) (Finite y) = round_to_double (x * y)"
| "multiply a b =
     (if sign a * sign b = 0 then NaN
      else if sign a * sign b < 0 then NegInfinity else PosInfinity)"

section \<open>What the actions call: database, clock, sign-in, number conversion\<close>

datatype exn = AuthError string | NextRedirect string | Error string

text \<open>
  The five statements of \<open>actions.ts\<close>, each with its bound parameters in the order of
  the template: \<open>INSERT_INTO_invoices customer_id amount status date\<close>,
  \<open>UPDATE_invoices customer_id amount status id\<close>, \<open>DELETE_FROM_invoices id\<close>,
  \<open>INSERT_INTO_customers name email image_url\<close>, \<open>DELETE_FROM_customers id\<close>.
\<close>

datatype statement =
    INSERT_INTO_invoices jsval jsval jsval jsval
  | UPDATE_invoices jsval jsval jsval string
  | DELETE_FROM_invoices string
  | INSERT_INTO_customers jsval jsval jsval
  | DELETE_FROM_customers string

text \<open>The value of \<open>new Date()\<close>, broken down in UTC as \<open>toISOString\<close> prints it
  (the month counts from 1).\<close>

record Date =
  year :: int
  month :: nat
  day :: nat
  hours :: nat
  minutes :: nat
  seconds :: nat
  milliseconds :: nat

text \<open>
  The collaborators of the actions, which are not code of this repository:
  \<open>StringToNumber\<close> is what \<open>Number\<close> makes of a string, \<open>isEmail\<close> is the pattern
  behind zod's \<open>.email()\<close>,
  \<open>sql\<close> tells which error, if any, the store raises on a statement, \<open>now\<close> is the
  clock, and \<open>signIn\<close> tells which error, if any, the sign-in raises.
\<close>

record runtime =
  StringToNumber :: "string \<Rightarrow> jsnum"
  isEmail :: "string \<Rightarrow> bool"
  sql :: "statement \<Rightarrow> exn option"
  now :: Date
  signIn :: "string \<Rightarrow> FormData \<Rightarrow> exn option"

text \<open>\<open>Number(v)\<close>: \<open>null\<close> is 0, \<open>undefined\<close> and an object that prints as
  \<open>[object File]\<close> are NaN.\<close>

fun ToNumber :: "runtime \<Rightarrow> jsval \<Rightarrow> jsnum" where
  "ToNumber rt Undefined = NaN"
| "ToNumber rt Null = Finite 0"
| "ToNumber rt (Str s) = StringToNumber rt s"
| "ToNumber rt (Num n) = n"
| "ToNumber rt FileObject = NaN"

definition times :: "runtime \<Rightarrow> jsval \<Rightarrow> jsval \<Rightarrow> jsval" where
  "times rt a b = Num (multiply (ToNumber rt a) (ToNumber rt b))"

text \<open>\<open>a <= b\<close> on numbers: false as soon as one side is NaN.\<close>

fun num_le :: "jsnum \<Rightarrow> jsnum \<Rightarrow> bool" where
  "num_le NaN b = False"
| "num_le a NaN = False"
| "num_le NegInfinity b = True"
| "num_le a PosInfinity = True"
| "num_le (Finite x) (Finite y) = (x \<le> y)"
| "num_le PosInfinity b = False"
| "num_le a NegInfinity = False"

section \<open>The zod schemas\<close>

datatype issue_code = invalid_type | invalid_enum_value | too_small | invalid_string

record issue =
  code :: issue_code
  path :: "string list"
  issue_message :: string

text \<open>A schema for one value: the parsed value, or the issues (code and message).\<close>

type_synonym schema = "jsval \<Rightarrow> (issue_code \<times> string) list + jsval"

fun parsedType :: "jsval \<Rightarrow> string" where
  "parsedType Undefined = ''undefined''"
| "parsedType Null = ''null''"
| "parsedType (Str s) = ''string''"
| "parsedType (Num n) = (if n = NaN then ''nan'' else ''number'')"
| "parsedType FileObject = ''object''"

text \<open>
  The message of an \<open>invalid_type\<close> issue: \<open>Required\<close> for \<open>undefined\<close> (no
  \<open>required_error\<close> is given anywhere), else the schema's \<open>invalid_type_error\<close>, else
  zod's default.
\<close>

definition invalid_type_message :: "string option \<Rightarrow> string \<Rightarrow> jsval \<Rightarrow> string" where
  "invalid_type_message invalid_type_error expected v =
     (if v = Undefined then ''Required''
      else case invalid_type_error of
             Some m \<Rightarrow> m
           | None \<Rightarrow> ''Expected '' @ expected @ '', received '' @ parsedType v)"

datatype string_check = Min nat string | Email

fun string_issue :: "runtime \<Rightarrow> string \<Rightarrow> string_check \<Rightarrow> (issue_code \<times> string) list" where
  "string_issue rt s (Min n m) = (if length s < n then [(too_small, m)] else [])"
| "string_issue rt s Email = (if isEmail rt s then [] else [(invalid_string, ''Invalid email'')])"

text \<open>\<open>z.string(params)\<close> followed by its checks, all of which run.\<close>

definition z_string :: "runtime \<Rightarrow> string option \<Rightarrow> string_check list \<Rightarrow> schema" where
  "z_string rt invalid_type_error checks v =
     (case v of
        Str s \<Rightarrow>
          (let issues = concat (map (string_issue rt s) checks)
           in if issues = [] then Inr (Str s) else Inl issues)
      | _ \<Rightarrow> Inl [(invalid_type, invalid_type_message invalid_type_error ''string'' v)])"

text \<open>\<open>z.coerce.number().gt(bound, {message})\<close>: the input goes through \<open>Number\<close>
  first; the check fails when \<open>data <= bound\<close>.\<close>

definition z_coerce_number_gt :: "runtime \<Rightarrow> jsnum \<Rightarrow> string \<Rightarrow> schema" where
  "z_coerce_number_gt rt bound m v =
     (let data = ToNumber rt v
      in if data = NaN then Inl [(invalid_type, invalid_type_message None ''number'' (Num data))]
         else if num_le data bound then Inl [(too_small, m)]
         else Inr (Num data))"

definition quoted :: "string \<Rightarrow> string" where
  "quoted s = [CHR 0x27] @ s @ [CHR 0x27]"

fun joinValues :: "string list \<Rightarrow> string" where
  "joinValues [] = []"
| "joinValues [v] = quoted v"
| "joinValues (v # vs) = quoted v @ '' | '' @ joinValues vs"

text \<open>\<open>z.enum(values, params)\<close>.\<close>

definition z_enum :: "string list \<Rightarrow> string option \<Rightarrow> schema" where
  "z_enum vals invalid_type_error v =
     (case v of
        Str s \<Rightarrow>
          (if s \<in> set vals then Inr (Str s)
           else Inl [(invalid_enum_value,
                      ''Invalid enum value. Expected '' @ joinValues vals @ '', received '' @ quoted s)])
      | _ \<Rightarrow> Inl [(invalid_type, invalid_type_message invalid_type_error (joinValues vals) v)])"

text \<open>\<open>z.object(shape)\<close>: the keys of the shape in order; \<open>omit\<close> drops keys.\<close>

type_synonym shape = "(string \<times> schema) list"

definition omit :: "string list \<Rightarrow> shape \<Rightarrow> shape" where
  "omit ks sh = filter (\<lambda>(k, s). k \<notin> set ks) sh"

fun field_issues :: "string \<Rightarrow> (issue_code \<times> string) list + jsval \<Rightarrow> issue list" where
  "field_issues k (Inl is) = map (\<lambda>(c, m). \<lparr>code = c, path = [k], issue_message = m\<rparr>) is"
| "field_issues k (Inr v) = []"

fun field_value :: "string \<Rightarrow> (issue_code \<times> string) list + jsval \<Rightarrow> object" where
  "field_value k (Inl is) = []"
| "field_value k (Inr v) = [(k, v)]"

definition safeParse :: "shape \<Rightarrow> object \<Rightarrow> issue list + object" where
  "safeParse sh input =
     (let results = map (\<lambda>(k, s). (k, s (lookup input k))) sh;
          issues = concat (map (\<lambda>(k, r). field_issues k r) results)
      in if issues = [] then Inr (concat (map (\<lambda>(k, r). field_value k r) results))
         else Inl issues)"

text \<open>\<open>error.flatten().fieldErrors\<close>: the messages of the issues, grouped under the
  first element of their path, keys in order of first appearance.\<close>

fun add_field_error :: "string \<Rightarrow> string \<Rightarrow> (string \<times> string list) list \<Rightarrow> (string \<times> string list) list" where
  "add_field_error k m [] = [(k, [m])]"
| "add_field_error k m ((k', ms) # rest) =
     (if k' = k then (k', ms @ [m]) # rest else (k', ms) # add_field_error k m rest)"

definition fieldErrors :: "issue list \<Rightarrow> (string \<times> string list) list" where
  "fieldErrors issues =
     fold (\<lambda>i acc. case path i of [] \<Rightarrow> acc | k # ks \<Rightarrow> add_field_error k (issue_message i) acc)
          issues []"

definition FormSchema :: "runtime \<Rightarrow> shape" where
  "FormSchema rt =
     [(''id'', z_string rt None []),
      (''customerId'', z_string rt (Some ''Please select a customer.'') []),
      (''amount'', z_coerce_number_gt rt (Finite 0) ''Please enter an amount greater than $0.''),
      (''status'', z_enum [''pending'', ''paid''] (Some ''Please select an invoice status.'')),
      (''date'', z_string rt None [])]"

definition AddCustomerSchema :: "runtime \<Rightarrow> shape" where
  "AddCustomerSchema rt =
     [(''name'', z_string rt None [Min 1 ''Please enter the name.'']),
      (''email'', z_string rt None [Email])]"

definition CreateInvoice :: "runtime \<Rightarrow> shape" where
  "CreateInvoice rt = omit [''id'', ''date''] (FormSchema rt)"

definition UpdateInvoice :: "runtime \<Rightarrow> shape" where
  "UpdateInvoice rt = omit [''id'', ''date''] (FormSchema rt)"

section \<open>Statements, their completions and their effects\<close>

text \<open>
  A statement completes normally, returns from the function or throws; the effects it
  had on the collaborators are listed in order.
\<close>

datatype 'a completion = Normal | Return 'a | Throw exn

datatype event =
    Query statement
  | ConsoleError exn
  | RevalidatePath string
  | Redirect string
  | SignIn string FormData

type_synonym 'a stmt = "'a completion \<times> event list"

definition seq :: "'a stmt \<Rightarrow> 'a stmt \<Rightarrow> 'a stmt" where
  "seq s1 s2 = (case fst s1 of Normal \<Rightarrow> (fst s2, snd s1 @ snd s2) | _ \<Rightarrow> s1)"

definition try_catch :: "'a stmt \<Rightarrow> (exn \<Rightarrow> 'a stmt) \<Rightarrow> 'a stmt" where
  "try_catch s handler =
     (case fst s of Throw e \<Rightarrow> (fst (handler e), snd s @ snd (handler e)) | _ \<Rightarrow> s)"

definition return :: "'a \<Rightarrow> 'a stmt" where
  "return v = (Return v, [])"

definition throw :: "exn \<Rightarrow> 'a stmt" where
  "throw e = (Throw e, [])"

definition await_sql :: "runtime \<Rightarrow> statement \<Rightarrow> 'a stmt" where
  "await_sql rt q = (case sql rt q of None \<Rightarrow> Normal | Some e \<Rightarrow> Throw e, [Query q])"

definition console_error :: "exn \<Rightarrow> 'a stmt" where
  "console_error e = (Normal, [ConsoleError e])"

definition revalidatePath :: "string \<Rightarrow> 'a stmt" where
  "revalidatePath p = (Normal, [RevalidatePath p])"

text \<open>\<open>redirect\<close> works by throwing.\<close>

definition redirect :: "string \<Rightarrow> 'a stmt" where
  "redirect p = (Throw (NextRedirect p), [Redirect p])"

definition await_signIn :: "runtime \<Rightarrow> string \<Rightarrow> FormData \<Rightarrow> 'a stmt" where
  "await_signIn rt provider formData =
     (case signIn rt provider formData of None \<Rightarrow> Normal | Some e \<Rightarrow> Throw e,
      [SignIn provider formData])"

section \<open>The date of a new invoice\<close>

definition digit :: "nat \<Rightarrow> char" where
  "digit n = ''0123456789'' ! (n mod 10)"

definition pad2 :: "nat \<Rightarrow> string" where
  "pad2 n = [digit (n div 10), digit n]"

definition pad3 :: "nat \<Rightarrow> string" where
  "pad3 n = digit (n div 100) # pad2 n"

definition pad4 :: "nat \<Rightarrow> string" where
  "pad4 n = digit (n div 1000) # pad3 n"

definition pad6 :: "nat \<Rightarrow> string" where
  "pad6 n = digit (n div 100000) # digit (n div 10000) # pad4 n"

text \<open>The date part of \<open>toISOString\<close>: four digits for the years 0 to 9999, a sign
  and six digits otherwise.\<close>

definition isoDate :: "Date \<Rightarrow> string" where
  "isoDate d =
     (if 0 \<le> year d \<and> year d \<le> 9999 then pad4 (nat (year d))
      else (if year d < 0 then ''-'' else ''+'') @ pad6 (nat \<bar>year d\<bar>))
     @ ''-'' @ pad2 (month d) @ ''-'' @ pad2 (day d)"

definition toISOString :: "Date \<Rightarrow> string" where
  "toISOString d =
     isoDate d @ ''T'' @ pad2 (hours d) @ '':'' @ pad2 (minutes d) @ '':'' @ pad2 (seconds d)
     @ ''.'' @ pad3 (milliseconds d) @ ''Z''"

text \<open>\<open>s.split(c)\<close> for a separator of one character.\<close>

fun split :: "char \<Rightarrow> string \<Rightarrow> string list" where
  "split c [] = [[]]"
| "split c (x # xs) =
     (if x = c then [] # split c xs
      else case split c xs of [] \<Rightarrow> [[x]] | p # ps \<Rightarrow> (x # p) # ps)"

text \<open>\<open>parts[0]\<close>, which is \<open>undefined\<close> on an empty array.\<close>

fun first :: "string list \<Rightarrow> jsval" where
  "first [] = Undefined"
| "first (p # ps) = Str p"

section \<open>The server actions\<close>

text \<open>
  What an action returns to the form: \<open>State\<close> and \<open>CustomersState\<close> differ only in
  the names of the fields they may hold. A key left out of the returned object is
  \<open>None\<close>; \<open>values_field\<close> is the key \<open>values\<close>.
\<close>

record State =
  errors :: "(string \<times> string list) list option"
  values_field :: "object option"
  message :: "string option"

type_synonym CustomersState = State

definition createInvoice :: "runtime \<Rightarrow> State \<Rightarrow> FormData \<Rightarrow> State stmt" where
  "createInvoice rt prevState formData =
     (let rawFormData =
            [(''customerId'', get formData ''customerId''),
             (''amount'', get formData ''amount''),
             (''status'', get formData ''status'')];
          validatedFields = safeParse (CreateInvoice rt) rawFormData
      in case validatedFields of
           Inl error \<Rightarrow>
             return \<lparr>errors = Some (fieldErrors error),
                     values_field = Some rawFormData,
                     message = Some ''Missing Fields. Failed to Create Invoice.''\<rparr>
         | Inr data \<Rightarrow>
             (let customerId = lookup data ''customerId'';
                  amount = lookup data ''amount'';
                  status = lookup data ''status'';
                  amountInCents = times rt amount (Num (Finite 100));
                  date = first (split CHR ''T'' (toISOString (now rt)))
              in seq (try_catch
                        (await_sql rt (INSERT_INTO_invoices customerId amountInCents status date))
                        (\<lambda>e. seq (console_error e)
                                 (return \<lparr>errors = None,
                                          values_field = Some rawFormData,
                                          message = Some ''Database Error: Failed to Create Invoice.''\<rparr>)))
                     (seq (revalidatePath ''/dashboard/invoices'')
                          (redirect ''/dashboard/invoices''))))"

definition updateInvoice :: "runtime \<Rightarrow> string \<Rightarrow> State \<Rightarrow> FormData \<Rightarrow> State stmt" where
  "updateInvoice rt id' prevState formData =
     (let rawFormData =
            [(''customerId'', get formData ''customerId''),
             (''amount'', get formData ''amount''),
             (''status'', get formData ''status'')];
          validatedFields = safeParse (UpdateInvoice rt) rawFormData
      in case validatedFields of
           Inl error \<Rightarrow>
             return \<lparr>errors = Some (fieldErrors error),
                     values_field = Some rawFormData,
                     message = Some ''Missing Fields. Failed to Update Invoice.''\<rparr>
         | Inr data \<Rightarrow>
             (let customerId = lookup data ''customerId'';
                  amount = lookup data ''amount'';
                  status = lookup data ''status'';
                  amountInCents = times rt amount (Num (Finite 100))
              in seq (try_catch
                        (await_sql rt (UPDATE_invoices customerId amountInCents status id'))
                        (\<lambda>e. seq (console_error e)
                                 (return \<lparr>errors = None,
                                          values_field = Some rawFormData,
                                          message = Some ''Database Error: Failed to Update Invoice.''\<rparr>)))
                     (seq (revalidatePath ''/dashboard/invoices'')
                          (redirect ''/dashboard/invoices''))))"

definition deleteInvoice :: "runtime \<Rightarrow> string \<Rightarrow> State stmt" where
  "deleteInvoice rt id' =
     seq (await_sql rt (DELETE_FROM_invoices id')) (revalidatePath ''/dashboard/invoices'')"

definition addCustomer :: "runtime \<Rightarrow> CustomersState \<Rightarrow> FormData \<Rightarrow> CustomersState stmt" where
  "addCustomer rt prevState formData =
     (let rawFormData =
            [(''name'', get formData ''name''),
             (''email'', get formData ''email'')];
          validatedFields = safeParse (AddCustomerSchema rt) rawFormData
      in case validatedFields of
           Inl error \<Rightarrow>
             return \<lparr>errors = Some (fieldErrors error),
                     values_field = Some rawFormData,
                     message = Some ''Missing Fields. Failed to Add Customer.''\<rparr>
         | Inr data \<Rightarrow>
             (let name = lookup data ''name'';
                  email = lookup data ''email'';
                  imageUrl = Str ''/customers/avatar-placeholder.webp''
              in seq (try_catch
                        (await_sql rt (INSERT_INTO_customers name email imageUrl))
                        (\<lambda>e. seq (console_error e)
                                 (return \<lparr>errors = None,
                                          values_field = Some rawFormData,
                                          message = Some ''Database Error: Failed to Add Customer.''\<rparr>)))
                     (seq (revalidatePath ''/dashboard/customers'')
                          (redirect ''/dashboard/customers''))))"

definition deleteCustomer :: "runtime \<Rightarrow> string \<Rightarrow> CustomersState stmt" where
  "deleteCustomer rt id' =
     seq (await_sql rt (DELETE_FROM_customers id')) (revalidatePath ''/dashboard/customers'')"

definition authenticate :: "runtime \<Rightarrow> string option \<Rightarrow> FormData \<Rightarrow> string stmt" where
  "authenticate rt prevState formData =
     try_catch (await_signIn rt ''credentials'' formData)
       (\<lambda>error. case error of
                   AuthError type \<Rightarrow>
                     (if type = ''CredentialsSignin'' then return ''Invalid credentials.''
                      else return ''Something went wrong.'')
                 | _ \<Rightarrow> throw error)"

section \<open>Reading a result\<close>

text \<open>\<open>validatedFields.success\<close>.\<close>

fun success :: "'e + 'a \<Rightarrow> bool" where
  "success (Inl e) = False"
| "success (Inr d) = True"

text \<open>\<open>a < b\<close> on numbers.\<close>

definition num_lt :: "jsnum \<Rightarrow> jsnum \<Rightarrow> bool" where
  "num_lt a b = (a \<noteq> NaN \<and> b \<noteq> NaN \<and> \<not> num_le b a)"

text \<open>The \<open>rawFormData\<close> of the invoice actions and of \<open>addCustomer\<close>.\<close>

definition invoiceFields :: "FormData \<Rightarrow> object" where
  "invoiceFields formData =
     [(''customerId'', get formData ''customerId''),
      (''amount'', get formData ''amount''),
      (''status'', get formData ''status'')]"

definition customerFields :: "FormData \<Rightarrow> object" where
  "customerFields formData =
     [(''name'', get formData ''name''),
      (''email'', get formData ''email'')]"

text \<open>The state an action returned, if it returned one.\<close>

fun returned :: "'a stmt \<Rightarrow> 'a option" where
  "returned (Return v, es) = Some v"
| "returned (c, es) = None"

text \<open>The messages an action returned under a field name: \<open>state.errors?.[k]\<close>.\<close>

definition errors_of :: "State stmt \<Rightarrow> string \<Rightarrow> string list option" where
  "errors_of r k =
     (case returned r of
        None \<Rightarrow> None
      | Some st \<Rightarrow> (case errors st of None \<Rightarrow> None | Some es \<Rightarrow> map_of es k))"

text \<open>The messages of the issues filed under a field name, in order.\<close>

definition messages_at :: "string \<Rightarrow> issue list \<Rightarrow> string list" where
  "messages_at k issues =
     map issue_message (filter (\<lambda>i. case path i of [] \<Rightarrow> False | k' # ks \<Rightarrow> k' = k) issues)"

fun is_query :: "event \<Rightarrow> bool" where
  "is_query (Query q) = True"
| "is_query e = False"

fun is_revalidate :: "event \<Rightarrow> bool" where
  "is_revalidate (RevalidatePath p) = True"
| "is_revalidate e = False"

fun is_redirect :: "event \<Rightarrow> bool" where
  "is_redirect (Redirect p) = True"
| "is_redirect e = False"

section \<open>A runtime and submissions for the examples\<close>

fun digits_value :: "string \<Rightarrow> nat \<Rightarrow> nat option" where
  "digits_value [] acc = Some acc"
| "digits_value (c # cs) acc =
     (if c \<in> set ''0123456789'' then digits_value cs (10 * acc + (of_char c - 48)) else None)"

text \<open>The value of \<open>digits\<close>, \<open>digits.\<close>, \<open>.digits\<close> or \<open>digits.digits\<close>.\<close>

definition decimal_value :: "string \<Rightarrow> rat option" where
  "decimal_value s =
     (case split CHR ''.'' s of
        [ip] \<Rightarrow> (if ip = [] then None else map_option of_nat (digits_value ip 0))
      | [ip, fp] \<Rightarrow>
          (if ip = [] \<and> fp = [] then None
           else (case digits_value ip 0 of
                   None \<Rightarrow> None
                 | Some i \<Rightarrow>
                     (case digits_value fp 0 of
                        None \<Rightarrow> None
                      | Some f \<Rightarrow> Some (of_nat i + of_nat f / 10 ^ length fp))))
      | _ \<Rightarrow> None)"

text \<open>
  A stand-in for \<open>Number\<close> on strings: it agrees with \<open>Number\<close> on the empty string
  and on decimal literals with an optional sign and an optional fraction, which is all
  the examples submit, and answers NaN on every other string (white space, exponents,
  \<open>Infinity\<close>, hexadecimal), whatever \<open>Number\<close> would make of it. The theorems about the
  actions hold for any \<open>StringToNumber\<close>.
\<close>

definition exampleStringToNumber :: "string \<Rightarrow> jsnum" where
  "exampleStringToNumber s =
     (case s of
        [] \<Rightarrow> Finite 0
      | c # cs \<Rightarrow>
          (if c = CHR ''-'' then
             (case decimal_value cs of None \<Rightarrow> NaN | Some v \<Rightarrow> round_to_double (- v))
           else if c = CHR ''+'' then
             (case decimal_value cs of None \<Rightarrow> NaN | Some v \<Rightarrow> round_to_double v)
           else (case decimal_value s of None \<Rightarrow> NaN | Some v \<Rightarrow> round_to_double v)))"

text \<open>
  The runtime of the examples: a store that accepts every statement, a sign-in that
  succeeds, a clock stopped at 2024-03-09T10:20:30.456Z, and for \<open>isEmail\<close> the test
  that the string holds an \<open>@\<close>, which agrees with zod's pattern on the addresses of
  the examples.
\<close>

definition exampleRuntime :: runtime where
  "exampleRuntime =
     \<lparr>StringToNumber = exampleStringToNumber,
      isEmail = (\<lambda>s. CHR ''@'' \<in> set s),
      sql = (\<lambda>q. None),
      now = \<lparr>year = 2024, month = 3, day = 9, hours = 10, minutes = 20, seconds = 30,
             milliseconds = 456\<rparr>,
      signIn = (\<lambda>provider formData. None)\<rparr>"

text \<open>The same runtime with a store that refuses every statement.\<close>

definition failingStore :: runtime where
  "failingStore = exampleRuntime\<lparr>sql := (\<lambda>q. Some (Error ''connection terminated''))\<rparr>"

text \<open>The same runtime with a sign-in that raises.\<close>

definition signInRaising :: "exn \<Rightarrow> runtime" where
  "signInRaising e = exampleRuntime\<lparr>signIn := (\<lambda>provider formData. Some e)\<rparr>"

text \<open>The state the forms start from: \<open>{message: null, errors: {}, values: {}}\<close>.\<close>

definition initialState :: State where
  "initialState = \<lparr>errors = Some [], values_field = Some [], message = None\<rparr>"

definition invoiceForm :: "string \<Rightarrow> string \<Rightarrow> string \<Rightarrow> FormData" where
  "invoiceForm c a s =
     [(''customerId'', TextEntry c), (''amount'', TextEntry a), (''status'', TextEntry s)]"

definition customerForm :: "string \<Rightarrow> string \<Rightarrow> FormData" where
  "customerForm n e = [(''name'', TextEntry n), (''email'', TextEntry e)]"

section \<open>What the schemas accept\<close>

lemma CreateInvoice_shape: "CreateInvoice rt = [(''customerId'', z_string rt (Some ''Please select a customer.'') []),
      (''amount'', z_coerce_number_gt rt (Finite 0) ''Please enter an amount greater than $0.''),
      (''status'', z_enum [''pending'', ''paid''] (Some ''Please select an invoice status.''))]"
  by (simp add: CreateInvoice_def omit_def FormSchema_def)

lemma UpdateInvoice_shape: "UpdateInvoice rt = CreateInvoice rt"
  by (simp add: CreateInvoice_def UpdateInvoice_def)

lemma AddCustomerSchema_parse:
  "safeParse (AddCustomerSchema rt) [(''name'', n), (''email'', e)] =
     (let r1 = z_string rt None [Min 1 ''Please enter the name.''] n;
          r2 = z_string rt None [Email] e;
          issues = field_issues ''name'' r1 @ field_issues ''email'' r2
      in if issues = [] then Inr (field_value ''name'' r1 @ field_value ''email'' r2) else Inl issues)"
  by (simp add: AddCustomerSchema_def safeParse_def Let_def)

lemma CreateInvoice_parse:
  "safeParse (CreateInvoice rt) [(''customerId'', c), (''amount'', a), (''status'', s)] =
     (let r1 = z_string rt (Some ''Please select a customer.'') [] c;
          r2 = z_coerce_number_gt rt (Finite 0) ''Please enter an amount greater than $0.'' a;
          r3 = z_enum [''pending'', ''paid''] (Some ''Please select an invoice status.'') s;
          issues = field_issues ''customerId'' r1 @ field_issues ''amount'' r2 @ field_issues ''status'' r3
      in if issues = [] then Inr (field_value ''customerId'' r1 @ field_value ''amount'' r2 @ field_value ''status'' r3)
         else Inl issues)"
  by (simp add: CreateInvoice_shape safeParse_def Let_def)

lemma z_string_issues: "(field_issues k (z_string rt ite [] v) = []) = (\<exists>x. v = Str x)"
  by (cases v) (simp_all add: z_string_def)

lemma z_number_issues: "(field_issues k (z_coerce_number_gt rt (Finite 0) m a) = []) = num_lt (Finite 0) (ToNumber rt a)"
  by (simp add: z_coerce_number_gt_def num_lt_def Let_def)

lemma z_enum_issues: "(field_issues k (z_enum [''pending'', ''paid''] ite v) = []) = (v = Str ''pending'' \<or> v = Str ''paid'')"
  by (cases v) (auto simp add: z_enum_def)

lemma z_string_value: "field_value k (z_string rt ite [] (Str x)) = [(k, Str x)]"
  by (simp add: z_string_def)

lemma z_number_value: "num_lt (Finite 0) (ToNumber rt a) \<Longrightarrow>
   field_value k (z_coerce_number_gt rt (Finite 0) m a) = [(k, Num (ToNumber rt a))]"
  by (simp add: z_coerce_number_gt_def num_lt_def Let_def)

lemma z_enum_value: "v = Str ''pending'' \<or> v = Str ''paid'' \<Longrightarrow>
   field_value k (z_enum [''pending'', ''paid''] ite v) = [(k, v)]"
  by (auto simp add: z_enum_def)

lemma CreateInvoice_success:
  "success (safeParse (CreateInvoice rt) [(''customerId'', c), (''amount'', a), (''status'', s)]) =
     ((\<exists>x. c = Str x) \<and> num_lt (Finite 0) (ToNumber rt a) \<and> (s = Str ''pending'' \<or> s = Str ''paid''))"
  unfolding CreateInvoice_parse Let_def
  by (simp add: z_number_issues z_string_issues z_enum_issues)

lemma CreateInvoice_data:
  assumes "success (safeParse (CreateInvoice rt) [(''customerId'', c), (''amount'', a), (''status'', s)])"
  shows "safeParse (CreateInvoice rt) [(''customerId'', c), (''amount'', a), (''status'', s)] =
           Inr [(''customerId'', c), (''amount'', Num (ToNumber rt a)), (''status'', s)]"
proof -
  from assms obtain x where c: "c = Str x" and a: "num_lt (Finite 0) (ToNumber rt a)"
    and s: "s = Str ''pending'' \<or> s = Str ''paid''"
    by (auto simp add: CreateInvoice_success)
  show ?thesis
    unfolding CreateInvoice_parse Let_def
    using a s by (simp add: z_number_issues z_string_issues z_enum_issues c z_string_value z_number_value z_enum_value)
qed

lemma split_prefix: "c \<notin> set xs \<Longrightarrow> split c (xs @ c # ys) = xs # split c ys"
proof (induction xs)
  case Nil
  then show ?case by simp
next
  case (Cons x xs)
  then show ?case by auto
qed

lemma digit_not_T: "digit n \<noteq> CHR ''T''"
proof -
  have "n mod 10 < length ''0123456789''" by simp
  then have "digit n \<in> set ''0123456789''"
    unfolding digit_def by (rule nth_mem)
  then show ?thesis by auto
qed

lemma isoDate_no_T: "CHR ''T'' \<notin> set (isoDate d)"
  using digit_not_T[symmetric] by (simp add: isoDate_def pad2_def pad3_def pad4_def pad6_def)

lemma date_part: "first (split CHR ''T'' (toISOString d)) = Str (isoDate d)"
proof -
  have "toISOString d = isoDate d @ CHR ''T'' # (pad2 (hours d) @ '':'' @ pad2 (minutes d) @ '':'' @ pad2 (seconds d)
     @ ''.'' @ pad3 (milliseconds d) @ ''Z'')"
    by (simp add: toISOString_def)
  then show ?thesis using split_prefix[OF isoDate_no_T] by simp
qed

lemma persist_fail:
  "sql rt q = Some e \<Longrightarrow>
   seq (try_catch (await_sql rt q) (\<lambda>e. seq (console_error e) (return st))) (seq (revalidatePath p) (redirect p'))
     = (Return st, [Query q, ConsoleError e])"
  by (simp add: seq_def try_catch_def await_sql_def console_error_def return_def)

lemma persist_ok:
  "sql rt q = None \<Longrightarrow>
   seq (try_catch (await_sql rt q) handler) (seq (revalidatePath p) (redirect p'))
     = (Throw (NextRedirect p'), [Query q, RevalidatePath p, Redirect p'])"
  by (simp add: seq_def try_catch_def await_sql_def revalidatePath_def redirect_def)


lemma name_issues: "(field_issues k (z_string rt ite [Min (Suc 0) m] v) = []) = (\<exists>x. v = Str x \<and> x \<noteq> [])"
  by (cases v) (auto simp add: z_string_def)

lemma email_issues: "(field_issues k (z_string rt ite [Email] v) = []) = (\<exists>x. v = Str x \<and> isEmail rt x)"
  by (cases v) (auto simp add: z_string_def)

lemma name_value: "x \<noteq> [] \<Longrightarrow> field_value k (z_string rt ite [Min (Suc 0) m] (Str x)) = [(k, Str x)]"
  by (auto simp add: z_string_def)

lemma email_value: "isEmail rt x \<Longrightarrow> field_value k (z_string rt ite [Email] (Str x)) = [(k, Str x)]"
  by (simp add: z_string_def)

lemma AddCustomerSchema_success:
  "success (safeParse (AddCustomerSchema rt) [(''name'', n), (''email'', e)]) =
     ((\<exists>x. n = Str x \<and> x \<noteq> []) \<and> (\<exists>y. e = Str y \<and> isEmail rt y))"
  unfolding AddCustomerSchema_parse Let_def
  by (simp add: name_issues email_issues)

lemma AddCustomerSchema_data:
  assumes "success (safeParse (AddCustomerSchema rt) [(''name'', n), (''email'', e)])"
  shows "safeParse (AddCustomerSchema rt) [(''name'', n), (''email'', e)] = Inr [(''name'', n), (''email'', e)]"
proof -
  from assms obtain x y where n: "n = Str x" "x \<noteq> []" and e: "e = Str y" "isEmail rt y"
    by (auto simp add: AddCustomerSchema_success)
  show ?thesis
    unfolding AddCustomerSchema_parse Let_def
    using n e by (simp add: name_issues email_issues name_value email_value)
qed

lemma createInvoice_invalid:
  "safeParse (CreateInvoice rt) (invoiceFields fd) = Inl issues \<Longrightarrow>
   createInvoice rt prev fd =
     (Return \<lparr>errors = Some (fieldErrors issues), values_field = Some (invoiceFields fd),
              message = Some ''Missing Fields. Failed to Create Invoice.''\<rparr>, [])"
  by (simp add: createInvoice_def invoiceFields_def return_def)

lemma updateInvoice_invalid:
  "safeParse (UpdateInvoice rt) (invoiceFields fd) = Inl issues \<Longrightarrow>
   updateInvoice rt i prev fd =
     (Return \<lparr>errors = Some (fieldErrors issues), values_field = Some (invoiceFields fd),
              message = Some ''Missing Fields. Failed to Update Invoice.''\<rparr>, [])"
  by (simp add: updateInvoice_def invoiceFields_def return_def)

lemma addCustomer_invalid:
  "safeParse (AddCustomerSchema rt) (customerFields fd) = Inl issues \<Longrightarrow>
   addCustomer rt prev fd =
     (Return \<lparr>errors = Some (fieldErrors issues), values_field = Some (customerFields fd),
              message = Some ''Missing Fields. Failed to Add Customer.''\<rparr>, [])"
  by (simp add: addCustomer_def customerFields_def return_def)

lemma createInvoice_valid:
  assumes "success (safeParse (CreateInvoice rt) (invoiceFields fd))"
  shows "createInvoice rt prev fd =
     seq (try_catch
            (await_sql rt (INSERT_INTO_invoices (get fd ''customerId'')
               (Num (multiply (ToNumber rt (get fd ''amount'')) (Finite 100)))
               (get fd ''status'') (Str (isoDate (now rt)))))
            (\<lambda>e. seq (console_error e)
                     (return \<lparr>errors = None, values_field = Some (invoiceFields fd),
                              message = Some ''Database Error: Failed to Create Invoice.''\<rparr>)))
         (seq (revalidatePath ''/dashboard/invoices'') (redirect ''/dashboard/invoices''))"
proof -
  have d: "safeParse (CreateInvoice rt) (invoiceFields fd) =
        Inr [(''customerId'', get fd ''customerId''), (''amount'', Num (ToNumber rt (get fd ''amount''))),
             (''status'', get fd ''status'')]"
    using assms unfolding invoiceFields_def by (rule CreateInvoice_data)
  show ?thesis
    using d unfolding invoiceFields_def
    by (simp add: createInvoice_def date_part times_def)
qed

lemma updateInvoice_valid:
  assumes "success (safeParse (UpdateInvoice rt) (invoiceFields fd))"
  shows "updateInvoice rt i prev fd =
     seq (try_catch
            (await_sql rt (UPDATE_invoices (get fd ''customerId'')
               (Num (multiply (ToNumber rt (get fd ''amount'')) (Finite 100)))
               (get fd ''status'') i))
            (\<lambda>e. seq (console_error e)
                     (return \<lparr>errors = None, values_field = Some (invoiceFields fd),
                              message = Some ''Database Error: Failed to Update Invoice.''\<rparr>)))
         (seq (revalidatePath ''/dashboard/invoices'') (redirect ''/dashboard/invoices''))"
proof -
  have d: "safeParse (UpdateInvoice rt) (invoiceFields fd) =
        Inr [(''customerId'', get fd ''customerId''), (''amount'', Num (ToNumber rt (get fd ''amount''))),
             (''status'', get fd ''status'')]"
    using assms unfolding invoiceFields_def UpdateInvoice_shape by (rule CreateInvoice_data)
  show ?thesis
    using d unfolding invoiceFields_def
    by (simp add: updateInvoice_def times_def)
qed

lemma addCustomer_valid:
  assumes "success (safeParse (AddCustomerSchema rt) (customerFields fd))"
  shows "addCustomer rt prev fd =
     seq (try_catch
            (await_sql rt (INSERT_INTO_customers (get fd ''name'') (get fd ''email'')
               (Str ''/customers/avatar-placeholder.webp'')))
            (\<lambda>e. seq (console_error e)
                     (return \<lparr>errors = None, values_field = Some (customerFields fd),
                              message = Some ''Database Error: Failed to Add Customer.''\<rparr>)))
         (seq (revalidatePath ''/dashboard/customers'') (redirect ''/dashboard/customers''))"
proof -
  have d: "safeParse (AddCustomerSchema rt) (customerFields fd) =
        Inr [(''name'', get fd ''name''), (''email'', get fd ''email'')]"
    using assms unfolding customerFields_def by (rule AddCustomerSchema_data)
  show ?thesis
    using d unfolding customerFields_def
    by (simp add: addCustomer_def)
qed

section \<open>What the flattened errors hold\<close>

lemma map_of_add_field_error:
  "map_of (add_field_error k m acc) k' =
     (if k' = k then Some ((case map_of acc k of None \<Rightarrow> [] | Some ms \<Rightarrow> ms) @ [m])
      else map_of acc k')"
  by (induction acc) auto

lemma messages_at_Nil: "messages_at k [] = []"
  by (simp add: messages_at_def)

lemma messages_at_Cons:
  "messages_at k (i # issues) =
     (case path i of [] \<Rightarrow> [] | k' # ks \<Rightarrow> if k' = k then [issue_message i] else [])
     @ messages_at k issues"
  by (simp add: messages_at_def split: list.splits)

lemma map_of_fold_field_errors:
  "map_of (fold (\<lambda>i acc. case path i of [] \<Rightarrow> acc | k # ks \<Rightarrow> add_field_error k (issue_message i) acc)
                issues acc) k =
     (case map_of acc k of
        None \<Rightarrow> (if messages_at k issues = [] then None else Some (messages_at k issues))
      | Some ms \<Rightarrow> Some (ms @ messages_at k issues))"
proof (induction issues arbitrary: acc)
  case Nil
  then show ?case by (simp add: messages_at_Nil split: option.splits)
next
  case (Cons i issues)
  show ?case
  proof (cases "path i")
    case Nil
    then show ?thesis using Cons.IH[of acc]
      by (simp add: messages_at_Cons split: option.splits)
  next
    case (Cons k' ks)
    then show ?thesis
      using Cons.IH[of "add_field_error k' (issue_message i) acc"]
      by (simp add: messages_at_Cons map_of_add_field_error split: option.splits)
  qed
qed

lemma map_of_fieldErrors:
  "map_of (fieldErrors issues) k =
     (if messages_at k issues = [] then None else Some (messages_at k issues))"
  unfolding fieldErrors_def by (simp add: map_of_fold_field_errors)

lemma messages_at_append: "messages_at k (xs @ ys) = messages_at k xs @ messages_at k ys"
  by (simp add: messages_at_def)

lemma messages_at_field_issues:
  "messages_at k (field_issues k' r) =
     (if k' = k then (case r of Inl is \<Rightarrow> map snd is | Inr v \<Rightarrow> []) else [])"
  by (cases r) (auto simp add: messages_at_def comp_def case_prod_beta)


lemma amount_messages:
  assumes "num_le (ToNumber rt a) (Finite 0)"
  shows "\<exists>issues. safeParse (CreateInvoice rt) [(''customerId'', c), (''amount'', a), (''status'', s)] = Inl issues
           \<and> messages_at ''amount'' issues = [''Please enter an amount greater than $0.'']"
proof -
  have n: "ToNumber rt a \<noteq> NaN" using assms by (cases "ToNumber rt a") simp_all
  have r2: "z_coerce_number_gt rt (Finite 0) ''Please enter an amount greater than $0.'' a
              = Inl [(too_small, ''Please enter an amount greater than $0.'')]"
    using assms n by (simp add: z_coerce_number_gt_def Let_def)
  show ?thesis
    unfolding CreateInvoice_parse Let_def r2
    by (simp add: messages_at_append messages_at_Cons messages_at_field_issues)
qed

lemma returned_errors:
  "errors_of (Return \<lparr>errors = Some (fieldErrors issues), values_field = v, message = m\<rparr>, es) k =
     (if messages_at k issues = [] then None else Some (messages_at k issues))"
  by (simp add: errors_of_def map_of_fieldErrors)

lemma get_absent: "k \<notin> fst ` set fd \<Longrightarrow> get fd k = Null"
  by (induction fd k rule: get.induct) auto

lemma not_success: "(\<not> success r) = (\<exists>e. r = Inl e)"
  by (cases r) simp_all

section \<open>The invoice rules on the actions\<close>

lemma UpdateInvoice_success:
  "success (safeParse (UpdateInvoice rt) [(''customerId'', c), (''amount'', a), (''status'', s)]) =
     ((\<exists>x. c = Str x) \<and> num_lt (Finite 0) (ToNumber rt a) \<and> (s = Str ''pending'' \<or> s = Str ''paid''))"
  by (simp only: UpdateInvoice_shape CreateInvoice_success)

lemma createInvoice_amount_error:
  assumes "num_le (ToNumber rt (get fd ''amount'')) (Finite 0)"
  shows "errors_of (createInvoice rt prev fd) ''amount'' = Some [''Please enter an amount greater than $0.'']
         \<and> snd (createInvoice rt prev fd) = []"
proof -
  obtain issues where i: "safeParse (CreateInvoice rt) (invoiceFields fd) = Inl issues"
    and m: "messages_at ''amount'' issues = [''Please enter an amount greater than $0.'']"
    using amount_messages[OF assms] unfolding invoiceFields_def by blast
  show ?thesis
    unfolding createInvoice_invalid[OF i] returned_errors using m by simp
qed

lemma updateInvoice_amount_error:
  assumes "num_le (ToNumber rt (get fd ''amount'')) (Finite 0)"
  shows "errors_of (updateInvoice rt i prev fd) ''amount'' = Some [''Please enter an amount greater than $0.'']
         \<and> snd (updateInvoice rt i prev fd) = []"
proof -
  obtain issues where i: "safeParse (UpdateInvoice rt) (invoiceFields fd) = Inl issues"
    and m: "messages_at ''amount'' issues = [''Please enter an amount greater than $0.'']"
    using amount_messages[OF assms] unfolding invoiceFields_def UpdateInvoice_shape by blast
  show ?thesis
    unfolding updateInvoice_invalid[OF i] returned_errors using m by simp
qed

lemma example_parse:
  assumes "StringToNumber rt ''-5'' = Finite (- 5)"
  shows "safeParse (CreateInvoice rt) (invoiceFields (invoiceForm '''' ''-5'' ''x'')) =
     Inl [\<lparr>code = too_small, path = [''amount''], issue_message = ''Please enter an amount greater than $0.''\<rparr>,
          \<lparr>code = invalid_enum_value, path = [''status''],
           issue_message = ''Invalid enum value. Expected '' @ joinValues [''pending'', ''paid''] @ '', received '' @ quoted ''x''\<rparr>]"
  unfolding invoiceFields_def invoiceForm_def
  using assms
  by (simp add: CreateInvoice_parse z_string_def z_coerce_number_gt_def z_enum_def)

lemma round_examples:
  "round_to_double 5 = Finite 5"
  "round_to_double (- 5) = Finite (- 5)"
  "round_to_double 12 = Finite 12"
  "round_to_double 1200 = Finite 1200"
  "round_to_double (23 / 20) = Finite (2589569785738035 / 2251799813685248)"
  by code_simp+

lemma example_product:
  "multiply (Finite (2589569785738035 / 2251799813685248)) (Finite 100)
     = Finite (8092405580431359 / 70368744177664)"
  by code_simp

lemma example_number: "StringToNumber exampleRuntime ''-5'' = Finite (- 5)"
  by (simp add: exampleRuntime_def exampleStringToNumber_def decimal_value_def round_examples)

lemma example_numbers:
  "StringToNumber exampleRuntime ''-5'' = Finite (- 5)"
  "StringToNumber exampleRuntime ''5'' = Finite 5"
  "StringToNumber exampleRuntime ''12'' = Finite 12"
  by (simp_all add: exampleRuntime_def exampleStringToNumber_def decimal_value_def round_examples)

lemma example_decimal:
  "StringToNumber exampleRuntime ''1.15'' = Finite (2589569785738035 / 2251799813685248)"
  by (simp add: exampleRuntime_def exampleStringToNumber_def decimal_value_def round_examples)

lemma example_fields:
  "invoiceFields (invoiceForm c a s) = [(''customerId'', Str c), (''amount'', Str a), (''status'', Str s)]"
  "customerFields (customerForm n e) = [(''name'', Str n), (''email'', Str e)]"
  by (simp_all add: invoiceFields_def invoiceForm_def customerFields_def customerForm_def)

lemma example_gets:
  "get (invoiceForm c a s) ''customerId'' = Str c"
  "get (invoiceForm c a s) ''amount'' = Str a"
  "get (invoiceForm c a s) ''status'' = Str s"
  "get (customerForm n e) ''name'' = Str n"
  "get (customerForm n e) ''email'' = Str e"
  by (simp_all add: invoiceForm_def customerForm_def)

section \<open>What the actions do with the store\<close>

lemma example_sql: "sql exampleRuntime q = None" "sql failingStore q = Some (Error ''connection terminated'')"
  by (simp_all add: exampleRuntime_def failingStore_def)

lemma failingStore_numbers:
  "StringToNumber failingStore = StringToNumber exampleRuntime"
  "isEmail failingStore = isEmail exampleRuntime"
  by (simp_all add: failingStore_def)

lemma example_email: "isEmail exampleRuntime ''ada@example.com''" "\<not> isEmail exampleRuntime ''not-an-email''"
  by (simp_all add: exampleRuntime_def)

lemma status_issues:
  assumes "s \<noteq> Str ''pending''" "s \<noteq> Str ''paid''"
  shows "\<exists>issues. safeParse (CreateInvoice rt) [(''customerId'', c), (''amount'', a), (''status'', s)] = Inl issues"
proof -
  have "\<not> success (safeParse (CreateInvoice rt) [(''customerId'', c), (''amount'', a), (''status'', s)])"
    using assms by (simp add: CreateInvoice_success)
  then show ?thesis by (simp add: not_success)
qed

lemma example_customer_parse:
  "safeParse (AddCustomerSchema exampleRuntime) (customerFields (customerForm ''Ada'' ''not-an-email'')) =
     Inl [\<lparr>code = invalid_string, path = [''email''], issue_message = ''Invalid email''\<rparr>]"
  unfolding example_fields AddCustomerSchema_parse
  by (simp add: z_string_def example_email)

lemma persist_outcome:
  "seq (try_catch (await_sql rt q) (\<lambda>e. seq (console_error e) (return st)))
       (seq (revalidatePath p) (redirect p)) =
     (case sql rt q of
        None \<Rightarrow> (Throw (NextRedirect p), [Query q, RevalidatePath p, Redirect p])
      | Some e \<Rightarrow> (Return st, [Query q, ConsoleError e]))"
  by (cases "sql rt q") (simp_all add: persist_ok persist_fail)

lemma createInvoice_outcome:
  assumes "success (safeParse (CreateInvoice rt) (invoiceFields fd))"
  shows "createInvoice rt prev fd =
     (case sql rt (INSERT_INTO_invoices (get fd ''customerId'')
                     (Num (multiply (ToNumber rt (get fd ''amount'')) (Finite 100)))
                     (get fd ''status'') (Str (isoDate (now rt)))) of
        None \<Rightarrow>
          (Throw (NextRedirect ''/dashboard/invoices''),
           [Query (INSERT_INTO_invoices (get fd ''customerId'')
                     (Num (multiply (ToNumber rt (get fd ''amount'')) (Finite 100)))
                     (get fd ''status'') (Str (isoDate (now rt)))),
            RevalidatePath ''/dashboard/invoices'', Redirect ''/dashboard/invoices''])
      | Some e \<Rightarrow>
          (Return \<lparr>errors = None, values_field = Some (invoiceFields fd),
                   message = Some ''Database Error: Failed to Create Invoice.''\<rparr>,
           [Query (INSERT_INTO_invoices (get fd ''customerId'')
                     (Num (multiply (ToNumber rt (get fd ''amount'')) (Finite 100)))
                     (get fd ''status'') (Str (isoDate (now rt)))),
            ConsoleError e]))"
  unfolding createInvoice_valid[OF assms] by (rule persist_outcome)

lemma updateInvoice_outcome:
  assumes "success (safeParse (UpdateInvoice rt) (invoiceFields fd))"
  shows "updateInvoice rt i prev fd =
     (case sql rt (UPDATE_invoices (get fd ''customerId'')
                     (Num (multiply (ToNumber rt (get fd ''amount'')) (Finite 100)))
                     (get fd ''status'') i) of
        None \<Rightarrow>
          (Throw (NextRedirect ''/dashboard/invoices''),
           [Query (UPDATE_invoices (get fd ''customerId'')
                     (Num (multiply (ToNumber rt (get fd ''amount'')) (Finite 100)))
                     (get fd ''status'') i),
            RevalidatePath ''/dashboard/invoices'', Redirect ''/dashboard/invoices''])
      | Some e \<Rightarrow>
          (Return \<lparr>errors = None, values_field = Some (invoiceFields fd),
                   message = Some ''Database Error: Failed to Update Invoice.''\<rparr>,
           [Query (UPDATE_invoices (get fd ''customerId'')
                     (Num (multiply (ToNumber rt (get fd ''amount'')) (Finite 100)))
                     (get fd ''status'') i),
            ConsoleError e]))"
  unfolding updateInvoice_valid[OF assms] by (rule persist_outcome)

lemma addCustomer_outcome:
  assumes "success (safeParse (AddCustomerSchema rt) (customerFields fd))"
  shows "addCustomer rt prev fd =
     (case sql rt (INSERT_INTO_customers (get fd ''name'') (get fd ''email'')
                     (Str ''/customers/avatar-placeholder.webp'')) of
        None \<Rightarrow>
          (Throw (NextRedirect ''/dashboard/customers''),
           [Query (INSERT_INTO_customers (get fd ''name'') (get fd ''email'')
                     (Str ''/customers/avatar-placeholder.webp'')),
            RevalidatePath ''/dashboard/customers'', Redirect ''/dashboard/customers''])
      | Some e \<Rightarrow>
          (Return \<lparr>errors = None, values_field = Some (customerFields fd),
                   message = Some ''Database Error: Failed to Add Customer.''\<rparr>,
           [Query (INSERT_INTO_customers (get fd ''name'') (get fd ''email'')
                     (Str ''/customers/avatar-placeholder.webp'')),
            ConsoleError e]))"
  unfolding addCustomer_valid[OF assms] by (rule persist_outcome)

lemma createInvoice_no_events:
  "\<not> success (safeParse (CreateInvoice rt) (invoiceFields fd)) \<Longrightarrow> snd (createInvoice rt prev fd) = []"
  by (auto simp add: not_success createInvoice_invalid)

lemma updateInvoice_no_events:
  "\<not> success (safeParse (UpdateInvoice rt) (invoiceFields fd)) \<Longrightarrow> snd (updateInvoice rt i prev fd) = []"
  by (auto simp add: not_success updateInvoice_invalid)

lemma addCustomer_no_events:
  "\<not> success (safeParse (AddCustomerSchema rt) (customerFields fd)) \<Longrightarrow> snd (addCustomer rt prev fd) = []"
  by (auto simp add: not_success addCustomer_invalid)

lemma createInvoice_store_error:
  assumes "Query q \<in> set (snd (createInvoice rt prev fd))" "sql rt q = Some e"
  shows "createInvoice rt prev fd =
        (Return \<lparr>errors = None, values_field = Some (invoiceFields fd),
                 message = Some ''Database Error: Failed to Create Invoice.''\<rparr>,
         [Query q, ConsoleError e])"
proof (cases "success (safeParse (CreateInvoice rt) (invoiceFields fd))")
  case True
  show ?thesis
    using assms unfolding createInvoice_outcome[OF True]
    by (auto split: option.splits)
next
  case False
  then show ?thesis using assms by (simp add: createInvoice_no_events)
qed

lemma updateInvoice_store_error:
  assumes "Query q \<in> set (snd (updateInvoice rt i prev fd))" "sql rt q = Some e"
  shows "updateInvoice rt i prev fd =
        (Return \<lparr>errors = None, values_field = Some (invoiceFields fd),
                 message = Some ''Database Error: Failed to Update Invoice.''\<rparr>,
         [Query q, ConsoleError e])"
proof (cases "success (safeParse (UpdateInvoice rt) (invoiceFields fd))")
  case True
  show ?thesis
    using assms unfolding updateInvoice_outcome[OF True]
    by (auto split: option.splits)
next
  case False
  then show ?thesis using assms by (simp add: updateInvoice_no_events)
qed

lemma addCustomer_store_error:
  assumes "Query q \<in> set (snd (addCustomer rt prev fd))" "sql rt q = Some e"
  shows "addCustomer rt prev fd =
        (Return \<lparr>errors = None, values_field = Some (customerFields fd),
                 message = Some ''Database Error: Failed to Add Customer.''\<rparr>,
         [Query q, ConsoleError e])"
proof (cases "success (safeParse (AddCustomerSchema rt) (customerFields fd))")
  case True
  show ?thesis
    using assms unfolding addCustomer_outcome[OF True]
    by (auto split: option.splits)
next
  case False
  then show ?thesis using assms by (simp add: addCustomer_no_events)
qed

lemma example_invoice_valid:
  "success (safeParse (CreateInvoice exampleRuntime) (invoiceFields (invoiceForm ''c1'' ''12'' ''paid'')))"
  "success (safeParse (CreateInvoice failingStore) (invoiceFields (invoiceForm ''c1'' ''12'' ''paid'')))"
  "success (safeParse (UpdateInvoice exampleRuntime) (invoiceFields (invoiceForm ''c1'' ''12'' ''paid'')))"
  "success (safeParse (UpdateInvoice failingStore) (invoiceFields (invoiceForm ''c1'' ''12'' ''paid'')))"
  unfolding example_fields CreateInvoice_success UpdateInvoice_success
  by (simp_all add: failingStore_numbers example_numbers num_lt_def)

lemma example_customer_valid:
  "success (safeParse (AddCustomerSchema exampleRuntime) (customerFields (customerForm ''Ada'' ''ada@example.com'')))"
  "success (safeParse (AddCustomerSchema failingStore) (customerFields (customerForm ''Ada'' ''ada@example.com'')))"
  unfolding example_fields AddCustomerSchema_success
  by (simp_all add: failingStore_numbers example_email)

lemma example_cents:
  "multiply (StringToNumber exampleRuntime ''12'') (Finite 100) = Finite 1200"
  by (simp add: example_numbers round_examples)

lemma example_date: "isoDate (now exampleRuntime) = ''2024-03-09''" "isoDate (now failingStore) = ''2024-03-09''"
  by (simp_all add: exampleRuntime_def failingStore_def isoDate_def pad4_def pad3_def pad2_def digit_def)

lemma example_create_fails:
  "createInvoice failingStore initialState (invoiceForm ''c1'' ''12'' ''paid'') =
     (Return \<lparr>errors = None,
              values_field = Some [(''customerId'', Str ''c1''), (''amount'', Str ''12''), (''status'', Str ''paid'')],
              message = Some ''Database Error: Failed to Create Invoice.''\<rparr>,
      [Query (INSERT_INTO_invoices (Str ''c1'') (Num (Finite 1200)) (Str ''paid'') (Str ''2024-03-09'')),
       ConsoleError (Error ''connection terminated'')])"
  unfolding createInvoice_outcome[OF example_invoice_valid(2)]
  by (simp add: example_sql example_gets example_fields failingStore_numbers example_cents example_date)

lemma example_update_fails:
  "updateInvoice failingStore ''inv-1'' initialState (invoiceForm ''c1'' ''12'' ''paid'') =
     (Return \<lparr>errors = None,
              values_field = Some [(''customerId'', Str ''c1''), (''amount'', Str ''12''), (''status'', Str ''paid'')],
              message = Some ''Database Error: Failed to Update Invoice.''\<rparr>,
      [Query (UPDATE_invoices (Str ''c1'') (Num (Finite 1200)) (Str ''paid'') ''inv-1''),
       ConsoleError (Error ''connection terminated'')])"
  unfolding updateInvoice_outcome[OF example_invoice_valid(4)]
  by (simp add: example_sql example_gets example_fields failingStore_numbers example_cents)

lemma example_add_fails:
  "addCustomer failingStore initialState (customerForm ''Ada'' ''ada@example.com'') =
     (Return \<lparr>errors = None,
              values_field = Some [(''name'', Str ''Ada''), (''email'', Str ''ada@example.com'')],
              message = Some ''Database Error: Failed to Add Customer.''\<rparr>,
      [Query (INSERT_INTO_customers (Str ''Ada'') (Str ''ada@example.com'') (Str ''/customers/avatar-placeholder.webp'')),
       ConsoleError (Error ''connection terminated'')])"
  unfolding addCustomer_outcome[OF example_customer_valid(2)]
  by (simp add: example_sql example_gets example_fields)

lemma example_create_ok:
  "createInvoice exampleRuntime initialState (invoiceForm ''c1'' ''12'' ''paid'') =
     (Throw (NextRedirect ''/dashboard/invoices''),
      [Query (INSERT_INTO_invoices (Str ''c1'') (Num (Finite 1200)) (Str ''paid'') (Str ''2024-03-09'')),
       RevalidatePath ''/dashboard/invoices'', Redirect ''/dashboard/invoices''])"
  unfolding createInvoice_outcome[OF example_invoice_valid(1)]
  by (simp add: example_sql example_gets example_cents example_date)

lemma example_update_ok:
  "updateInvoice exampleRuntime ''inv-1'' initialState (invoiceForm ''c1'' ''12'' ''paid'') =
     (Throw (NextRedirect ''/dashboard/invoices''),
      [Query (UPDATE_invoices (Str ''c1'') (Num (Finite 1200)) (Str ''paid'') ''inv-1''),
       RevalidatePath ''/dashboard/invoices'', Redirect ''/dashboard/invoices''])"
  unfolding updateInvoice_outcome[OF example_invoice_valid(3)]
  by (simp add: example_sql example_gets example_cents)

lemma example_add_ok:
  "addCustomer exampleRuntime initialState (customerForm ''Ada'' ''ada@example.com'') =
     (Throw (NextRedirect ''/dashboard/customers''),
      [Query (INSERT_INTO_customers (Str ''Ada'') (Str ''ada@example.com'') (Str ''/customers/avatar-placeholder.webp'')),
       RevalidatePath ''/dashboard/customers'', Redirect ''/dashboard/customers''])"
  unfolding addCustomer_outcome[OF example_customer_valid(1)]
  by (simp add: example_sql example_gets)

lemma createInvoice_store_ok:
  assumes "success (safeParse (CreateInvoice rt) (invoiceFields fd))"
    and "\<forall>q. Query q \<in> set (snd (createInvoice rt prev fd)) \<longrightarrow> sql rt q = None"
  shows "createInvoice rt prev fd =
     (Throw (NextRedirect ''/dashboard/invoices''),
      [Query (INSERT_INTO_invoices (get fd ''customerId'')
                (Num (multiply (ToNumber rt (get fd ''amount'')) (Finite 100)))
                (get fd ''status'') (Str (isoDate (now rt)))),
       RevalidatePath ''/dashboard/invoices'', Redirect ''/dashboard/invoices''])"
  using assms(2) unfolding createInvoice_outcome[OF assms(1)]
  by (auto split: option.splits)

lemma updateInvoice_store_ok:
  assumes "success (safeParse (UpdateInvoice rt) (invoiceFields fd))"
    and "\<forall>q. Query q \<in> set (snd (updateInvoice rt i prev fd)) \<longrightarrow> sql rt q = None"
  shows "updateInvoice rt i prev fd =
     (Throw (NextRedirect ''/dashboard/invoices''),
      [Query (UPDATE_invoices (get fd ''customerId'')
                (Num (multiply (ToNumber rt (get fd ''amount'')) (Finite 100)))
                (get fd ''status'') i),
       RevalidatePath ''/dashboard/invoices'', Redirect ''/dashboard/invoices''])"
  using assms(2) unfolding updateInvoice_outcome[OF assms(1)]
  by (auto split: option.splits)

lemma addCustomer_store_ok:
  assumes "success (safeParse (AddCustomerSchema rt) (customerFields fd))"
    and "\<forall>q. Query q \<in> set (snd (addCustomer rt prev fd)) \<longrightarrow> sql rt q = None"
  shows "addCustomer rt prev fd =
     (Throw (NextRedirect ''/dashboard/customers''),
      [Query (INSERT_INTO_customers (get fd ''name'') (get fd ''email'')
                (Str ''/customers/avatar-placeholder.webp'')),
       RevalidatePath ''/dashboard/customers'', Redirect ''/dashboard/customers''])"
  using assms(2) unfolding addCustomer_outcome[OF assms(1)]
  by (auto split: option.splits)

lemma deleteInvoice_outcome:
  "deleteInvoice rt i =
     (case sql rt (DELETE_FROM_invoices i) of
        None \<Rightarrow> (Normal, [Query (DELETE_FROM_invoices i), RevalidatePath ''/dashboard/invoices''])
      | Some e \<Rightarrow> (Throw e, [Query (DELETE_FROM_invoices i)]))"
  by (simp add: deleteInvoice_def seq_def await_sql_def revalidatePath_def split: option.splits)

lemma deleteCustomer_outcome:
  "deleteCustomer rt i =
     (case sql rt (DELETE_FROM_customers i) of
        None \<Rightarrow> (Normal, [Query (DELETE_FROM_customers i), RevalidatePath ''/dashboard/customers''])
      | Some e \<Rightarrow> (Throw e, [Query (DELETE_FROM_customers i)]))"
  by (simp add: deleteCustomer_def seq_def await_sql_def revalidatePath_def split: option.splits)

lemma absent_invoice_field:
  assumes "k \<in> {''customerId'', ''amount'', ''status''}" "get fd k = Null"
  shows "\<not> success (safeParse (CreateInvoice rt) (invoiceFields fd))"
  using assms unfolding invoiceFields_def CreateInvoice_success
  by (auto simp add: num_lt_def)

lemma absent_customer_field:
  assumes "k \<in> {''name'', ''email''}" "get fd k = Null"
  shows "\<not> success (safeParse (AddCustomerSchema rt) (customerFields fd))"
  using assms unfolding customerFields_def AddCustomerSchema_success
  by auto

section \<open>Properties of the actions\<close>

text \<open>
  C1, amended: invoice validation, the same for \<open>createInvoice\<close> and \<open>updateInvoice\<close>,
  succeeds exactly when the customer reference is a string (the empty string included),
  the amount coerces to a number strictly greater than 0, and the status is
  \<open>pending\<close> or \<open>paid\<close>. Whenever the amount coerces to a number at most 0, both
  actions return the message about an amount greater than $0 under \<open>amount\<close> and have
  no effect at all. Where \<open>Number\<close> reads \<open>-5\<close> as -5, the submission with customer
  \<open>''''\<close>, amount \<open>-5\<close> and status \<open>x\<close> gets messages under \<open>amount\<close> and under
  \<open>status\<close>, and none under \<open>customerId\<close>.
\<close>

theorem invoice_validation_rules:
  "(success (safeParse (CreateInvoice rt) (invoiceFields fd)) \<longleftrightarrow>
      (\<exists>x. get fd ''customerId'' = Str x)
      \<and> num_lt (Finite 0) (ToNumber rt (get fd ''amount''))
      \<and> (get fd ''status'' = Str ''pending'' \<or> get fd ''status'' = Str ''paid''))
   \<and> (success (safeParse (UpdateInvoice rt) (invoiceFields fd)) \<longleftrightarrow>
      (\<exists>x. get fd ''customerId'' = Str x)
      \<and> num_lt (Finite 0) (ToNumber rt (get fd ''amount''))
      \<and> (get fd ''status'' = Str ''pending'' \<or> get fd ''status'' = Str ''paid''))
   \<and> (num_le (ToNumber rt (get fd ''amount'')) (Finite 0) \<longrightarrow>
        errors_of (createInvoice rt prev fd) ''amount'' = Some [''Please enter an amount greater than $0.'']
        \<and> snd (createInvoice rt prev fd) = []
        \<and> errors_of (updateInvoice rt i prev fd) ''amount'' = Some [''Please enter an amount greater than $0.'']
        \<and> snd (updateInvoice rt i prev fd) = [])
   \<and> (StringToNumber rt ''-5'' = Finite (- 5) \<longrightarrow>
        errors_of (createInvoice rt prev (invoiceForm '''' ''-5'' ''x'')) ''customerId'' = None
        \<and> errors_of (createInvoice rt prev (invoiceForm '''' ''-5'' ''x'')) ''amount''
            = Some [''Please enter an amount greater than $0.'']
        \<and> errors_of (createInvoice rt prev (invoiceForm '''' ''-5'' ''x'')) ''status''
            = Some [''Invalid enum value. Expected '' @ joinValues [''pending'', ''paid''] @ '', received '' @ quoted ''x''])"
proof (intro conjI impI)
  show "success (safeParse (CreateInvoice rt) (invoiceFields fd)) \<longleftrightarrow>
      (\<exists>x. get fd ''customerId'' = Str x)
      \<and> num_lt (Finite 0) (ToNumber rt (get fd ''amount''))
      \<and> (get fd ''status'' = Str ''pending'' \<or> get fd ''status'' = Str ''paid'')"
    unfolding invoiceFields_def by (rule CreateInvoice_success)
  show "success (safeParse (UpdateInvoice rt) (invoiceFields fd)) \<longleftrightarrow>
      (\<exists>x. get fd ''customerId'' = Str x)
      \<and> num_lt (Finite 0) (ToNumber rt (get fd ''amount''))
      \<and> (get fd ''status'' = Str ''pending'' \<or> get fd ''status'' = Str ''paid'')"
    unfolding invoiceFields_def by (rule UpdateInvoice_success)
next
  assume a: "num_le (ToNumber rt (get fd ''amount'')) (Finite 0)"
  show "errors_of (createInvoice rt prev fd) ''amount'' = Some [''Please enter an amount greater than $0.'']"
    and "snd (createInvoice rt prev fd) = []"
    using createInvoice_amount_error[OF a] by simp_all
  show "errors_of (updateInvoice rt i prev fd) ''amount'' = Some [''Please enter an amount greater than $0.'']"
    and "snd (updateInvoice rt i prev fd) = []"
    using updateInvoice_amount_error[OF a] by simp_all
next
  assume n: "StringToNumber rt ''-5'' = Finite (- 5)"
  note r = createInvoice_invalid[OF example_parse[OF n]]
  show "errors_of (createInvoice rt prev (invoiceForm '''' ''-5'' ''x'')) ''customerId'' = None"
    unfolding r returned_errors by (simp add: messages_at_Cons messages_at_Nil)
  show "errors_of (createInvoice rt prev (invoiceForm '''' ''-5'' ''x'')) ''amount''
            = Some [''Please enter an amount greater than $0.'']"
    unfolding r returned_errors by (simp add: messages_at_Cons messages_at_Nil)
  show "errors_of (createInvoice rt prev (invoiceForm '''' ''-5'' ''x'')) ''status''
            = Some [''Invalid enum value. Expected '' @ joinValues [''pending'', ''paid''] @ '', received '' @ quoted ''x'']"
    unfolding r returned_errors by (simp add: messages_at_Cons messages_at_Nil)
qed

theorem invoice_validation_rules_witness:
  "num_le (ToNumber exampleRuntime (get (invoiceForm '''' ''-5'' ''x'') ''amount'')) (Finite 0)
   \<and> StringToNumber exampleRuntime ''-5'' = Finite (- 5)
   \<and> errors_of (createInvoice exampleRuntime initialState (invoiceForm '''' ''-5'' ''x'')) ''amount''
        = Some [''Please enter an amount greater than $0.'']
   \<and> snd (createInvoice exampleRuntime initialState (invoiceForm '''' ''-5'' ''x'')) = []
   \<and> errors_of (createInvoice exampleRuntime initialState (invoiceForm '''' ''-5'' ''x'')) ''customerId'' = None
   \<and> success (safeParse (CreateInvoice exampleRuntime) (invoiceFields (invoiceForm ''c1'' ''12'' ''paid'')))"
proof -
  have h1: "num_le (ToNumber exampleRuntime (get (invoiceForm '''' ''-5'' ''x'') ''amount'')) (Finite 0)"
    by (simp add: example_gets example_numbers)
  have h2: "StringToNumber exampleRuntime ''-5'' = Finite (- 5)"
    by (rule example_number)
  have h3: "num_lt (Finite 0) (ToNumber exampleRuntime (get (invoiceForm ''c1'' ''12'' ''paid'') ''amount''))"
    by (simp add: example_gets example_numbers num_lt_def)
  show ?thesis
    using h1 h2 h3
      invoice_validation_rules[where rt = exampleRuntime and fd = "invoiceForm '''' ''-5'' ''x''"
        and prev = initialState]
      invoice_validation_rules[where rt = exampleRuntime and fd = "invoiceForm ''c1'' ''12'' ''paid''"]
    by (simp add: example_gets)
qed

text \<open>
  Against C1 as stated: the submission with an empty customer reference, amount \<open>-5\<close>
  and status \<open>x\<close> gets no message under \<open>customerId\<close>, and a submission with an empty
  customer reference, amount \<open>5\<close> and status \<open>paid\<close> passes validation.
\<close>

theorem invoice_validation_counterexample:
  "errors_of (createInvoice exampleRuntime initialState (invoiceForm '''' ''-5'' ''x'')) ''customerId'' = None
   \<and> success (safeParse (CreateInvoice exampleRuntime) (invoiceFields (invoiceForm '''' ''5'' ''paid'')))"
proof
  show "errors_of (createInvoice exampleRuntime initialState (invoiceForm '''' ''-5'' ''x'')) ''customerId'' = None"
    unfolding createInvoice_invalid[OF example_parse[OF example_number]] returned_errors
    by (simp add: messages_at_Cons messages_at_Nil)
  show "success (safeParse (CreateInvoice exampleRuntime) (invoiceFields (invoiceForm '''' ''5'' ''paid'')))"
    unfolding example_fields CreateInvoice_success
    by (simp add: example_numbers num_lt_def)
qed

text \<open>
  C2: whenever validation fails, \<open>createInvoice\<close>, \<open>updateInvoice\<close> and \<open>addCustomer\<close>
  return a state that holds the messages of the issues by field, the submitted raw
  values as they were read, and the message \<open>Missing Fields. Failed to Create Invoice.\<close>,
  \<open>... Update Invoice.\<close> or \<open>... Add Customer.\<close>; the action ends there and has had no
  effect: no statement, no log, no invalidation, no redirect. In particular a status
  other than \<open>pending\<close> and \<open>paid\<close> fails validation and the raw values come back.
\<close>

theorem validation_failure_state:
  "(safeParse (CreateInvoice rt) (invoiceFields fd) = Inl issues \<longrightarrow>
      createInvoice rt prev fd =
        (Return \<lparr>errors = Some (fieldErrors issues), values_field = Some (invoiceFields fd),
                 message = Some ''Missing Fields. Failed to Create Invoice.''\<rparr>, []))
   \<and> (safeParse (UpdateInvoice rt) (invoiceFields fd) = Inl issues' \<longrightarrow>
      updateInvoice rt i prev fd =
        (Return \<lparr>errors = Some (fieldErrors issues'), values_field = Some (invoiceFields fd),
                 message = Some ''Missing Fields. Failed to Update Invoice.''\<rparr>, []))
   \<and> (safeParse (AddCustomerSchema rt) (customerFields fd) = Inl issues'' \<longrightarrow>
      addCustomer rt prev fd =
        (Return \<lparr>errors = Some (fieldErrors issues''), values_field = Some (customerFields fd),
                 message = Some ''Missing Fields. Failed to Add Customer.''\<rparr>, []))
   \<and> (get fd ''status'' \<noteq> Str ''pending'' \<and> get fd ''status'' \<noteq> Str ''paid'' \<longrightarrow>
      (\<exists>e. createInvoice rt prev fd =
        (Return \<lparr>errors = Some e, values_field = Some (invoiceFields fd),
                 message = Some ''Missing Fields. Failed to Create Invoice.''\<rparr>, [])))"
proof (intro conjI impI)
  assume "get fd ''status'' \<noteq> Str ''pending'' \<and> get fd ''status'' \<noteq> Str ''paid''"
  then obtain issues where "safeParse (CreateInvoice rt) (invoiceFields fd) = Inl issues"
    using status_issues unfolding invoiceFields_def by blast
  then show "\<exists>e. createInvoice rt prev fd =
        (Return \<lparr>errors = Some e, values_field = Some (invoiceFields fd),
                 message = Some ''Missing Fields. Failed to Create Invoice.''\<rparr>, [])"
    using createInvoice_invalid by blast
qed (simp_all add: createInvoice_invalid updateInvoice_invalid addCustomer_invalid)

theorem validation_failure_state_witness:
  "safeParse (CreateInvoice exampleRuntime) (invoiceFields (invoiceForm '''' ''-5'' ''x'')) =
     Inl [\<lparr>code = too_small, path = [''amount''], issue_message = ''Please enter an amount greater than $0.''\<rparr>,
          \<lparr>code = invalid_enum_value, path = [''status''],
           issue_message = ''Invalid enum value. Expected '' @ joinValues [''pending'', ''paid''] @ '', received '' @ quoted ''x''\<rparr>]
   \<and> fst (createInvoice exampleRuntime initialState (invoiceForm '''' ''-5'' ''x'')) =
        Return \<lparr>errors = Some [(''amount'', [''Please enter an amount greater than $0.'']),
                               (''status'', [''Invalid enum value. Expected '' @ joinValues [''pending'', ''paid''] @ '', received '' @ quoted ''x''])],
                values_field = Some [(''customerId'', Str ''''), (''amount'', Str ''-5''), (''status'', Str ''x'')],
                message = Some ''Missing Fields. Failed to Create Invoice.''\<rparr>
   \<and> snd (updateInvoice exampleRuntime ''inv-1'' initialState (invoiceForm '''' ''-5'' ''x'')) = []
   \<and> addCustomer exampleRuntime initialState (customerForm ''Ada'' ''not-an-email'') =
        (Return \<lparr>errors = Some [(''email'', [''Invalid email''])],
                 values_field = Some [(''name'', Str ''Ada''), (''email'', Str ''not-an-email'')],
                 message = Some ''Missing Fields. Failed to Add Customer.''\<rparr>, [])
   \<and> get (invoiceForm '''' ''-5'' ''x'') ''status'' \<noteq> Str ''pending''
   \<and> get (invoiceForm '''' ''-5'' ''x'') ''status'' \<noteq> Str ''paid''"
proof -
  note p = example_parse[OF example_number]
  have u: "safeParse (UpdateInvoice exampleRuntime) (invoiceFields (invoiceForm '''' ''-5'' ''x'')) =
     Inl [\<lparr>code = too_small, path = [''amount''], issue_message = ''Please enter an amount greater than $0.''\<rparr>,
          \<lparr>code = invalid_enum_value, path = [''status''],
           issue_message = ''Invalid enum value. Expected '' @ joinValues [''pending'', ''paid''] @ '', received '' @ quoted ''x''\<rparr>]"
    using p by (simp only: UpdateInvoice_shape)
  show ?thesis
    using p u example_customer_parse
      validation_failure_state[where rt = exampleRuntime and fd = "invoiceForm '''' ''-5'' ''x''"
        and prev = initialState and i = "''inv-1''"]
      validation_failure_state[where rt = exampleRuntime and fd = "customerForm ''Ada'' ''not-an-email''"
        and prev = initialState]
    by (simp add: example_gets example_fields fieldErrors_def)
qed

text \<open>
  C3: whenever the statement an action sent makes the store raise an error, the action
  catches it, logs it and returns a state with the raw values and the message
  \<open>Database Error: Failed to Create Invoice.\<close>, \<open>... Update Invoice.\<close> or
  \<open>... Add Customer.\<close>. The state does not hold the error, and after the statement the
  only effect is the log: there is no invalidation and no redirect.
\<close>

theorem store_error_state:
  "(Query q \<in> set (snd (createInvoice rt prev fd)) \<and> sql rt q = Some e \<longrightarrow>
      createInvoice rt prev fd =
        (Return \<lparr>errors = None, values_field = Some (invoiceFields fd),
                 message = Some ''Database Error: Failed to Create Invoice.''\<rparr>,
         [Query q, ConsoleError e]))
   \<and> (Query q' \<in> set (snd (updateInvoice rt i prev fd)) \<and> sql rt q' = Some e' \<longrightarrow>
      updateInvoice rt i prev fd =
        (Return \<lparr>errors = None, values_field = Some (invoiceFields fd),
                 message = Some ''Database Error: Failed to Update Invoice.''\<rparr>,
         [Query q', ConsoleError e']))
   \<and> (Query q'' \<in> set (snd (addCustomer rt prev fd)) \<and> sql rt q'' = Some e'' \<longrightarrow>
      addCustomer rt prev fd =
        (Return \<lparr>errors = None, values_field = Some (customerFields fd),
                 message = Some ''Database Error: Failed to Add Customer.''\<rparr>,
         [Query q'', ConsoleError e'']))"
  using createInvoice_store_error updateInvoice_store_error addCustomer_store_error
  by blast

theorem store_error_state_witness:
  "Query (INSERT_INTO_invoices (Str ''c1'') (Num (Finite 1200)) (Str ''paid'') (Str ''2024-03-09''))
      \<in> set (snd (createInvoice failingStore initialState (invoiceForm ''c1'' ''12'' ''paid'')))
   \<and> sql failingStore (INSERT_INTO_invoices (Str ''c1'') (Num (Finite 1200)) (Str ''paid'') (Str ''2024-03-09''))
        = Some (Error ''connection terminated'')
   \<and> fst (createInvoice failingStore initialState (invoiceForm ''c1'' ''12'' ''paid'')) =
        Return \<lparr>errors = None, values_field = Some (invoiceFields (invoiceForm ''c1'' ''12'' ''paid'')),
                message = Some ''Database Error: Failed to Create Invoice.''\<rparr>
   \<and> Query (UPDATE_invoices (Str ''c1'') (Num (Finite 1200)) (Str ''paid'') ''inv-1'')
      \<in> set (snd (updateInvoice failingStore ''inv-1'' initialState (invoiceForm ''c1'' ''12'' ''paid'')))
   \<and> fst (updateInvoice failingStore ''inv-1'' initialState (invoiceForm ''c1'' ''12'' ''paid'')) =
        Return \<lparr>errors = None, values_field = Some (invoiceFields (invoiceForm ''c1'' ''12'' ''paid'')),
                message = Some ''Database Error: Failed to Update Invoice.''\<rparr>
   \<and> Query (INSERT_INTO_customers (Str ''Ada'') (Str ''ada@example.com'') (Str ''/customers/avatar-placeholder.webp''))
      \<in> set (snd (addCustomer failingStore initialState (customerForm ''Ada'' ''ada@example.com'')))
   \<and> fst (addCustomer failingStore initialState (customerForm ''Ada'' ''ada@example.com'')) =
        Return \<lparr>errors = None, values_field = Some (customerFields (customerForm ''Ada'' ''ada@example.com'')),
                message = Some ''Database Error: Failed to Add Customer.''\<rparr>"
proof -
  have h1: "Query (INSERT_INTO_invoices (Str ''c1'') (Num (Finite 1200)) (Str ''paid'') (Str ''2024-03-09''))
      \<in> set (snd (createInvoice failingStore initialState (invoiceForm ''c1'' ''12'' ''paid'')))"
    by (simp add: example_create_fails)
  have h2: "Query (UPDATE_invoices (Str ''c1'') (Num (Finite 1200)) (Str ''paid'') ''inv-1'')
      \<in> set (snd (updateInvoice failingStore ''inv-1'' initialState (invoiceForm ''c1'' ''12'' ''paid'')))"
    by (simp add: example_update_fails)
  have h3: "Query (INSERT_INTO_customers (Str ''Ada'') (Str ''ada@example.com'') (Str ''/customers/avatar-placeholder.webp''))
      \<in> set (snd (addCustomer failingStore initialState (customerForm ''Ada'' ''ada@example.com'')))"
    by (simp add: example_add_fails)
  show ?thesis
    using h1 h2 h3
      store_error_state[where rt = failingStore and prev = initialState and i = "''inv-1''"
        and fd = "invoiceForm ''c1'' ''12'' ''paid''"
        and q = "INSERT_INTO_invoices (Str ''c1'') (Num (Finite 1200)) (Str ''paid'') (Str ''2024-03-09'')"
        and q' = "UPDATE_invoices (Str ''c1'') (Num (Finite 1200)) (Str ''paid'') ''inv-1''"
        and e = "Error ''connection terminated''" and e' = "Error ''connection terminated''"]
      store_error_state[where rt = failingStore and prev = initialState
        and fd = "customerForm ''Ada'' ''ada@example.com''"
        and q'' = "INSERT_INTO_customers (Str ''Ada'') (Str ''ada@example.com'') (Str ''/customers/avatar-placeholder.webp'')"
        and e'' = "Error ''connection terminated''"]
    by (simp add: example_sql)
qed

text \<open>
  C4: whenever validation succeeds and the store accepts the statement, the effects of
  the action are, in order, the statement, one invalidation of the listing path and the
  redirect to the same path, and the action ends by throwing the redirect: it is not
  caught and turned into a state with a database error.
\<close>

theorem invalidate_then_redirect:
  "(success (safeParse (CreateInvoice rt) (invoiceFields fd))
      \<and> (\<forall>q. Query q \<in> set (snd (createInvoice rt prev fd)) \<longrightarrow> sql rt q = None) \<longrightarrow>
      fst (createInvoice rt prev fd) = Throw (NextRedirect ''/dashboard/invoices'')
      \<and> (\<exists>q. snd (createInvoice rt prev fd) =
             [Query q, RevalidatePath ''/dashboard/invoices'', Redirect ''/dashboard/invoices''])
      \<and> filter is_revalidate (snd (createInvoice rt prev fd)) = [RevalidatePath ''/dashboard/invoices''])
   \<and> (success (safeParse (UpdateInvoice rt) (invoiceFields fd))
      \<and> (\<forall>q. Query q \<in> set (snd (updateInvoice rt i prev fd)) \<longrightarrow> sql rt q = None) \<longrightarrow>
      fst (updateInvoice rt i prev fd) = Throw (NextRedirect ''/dashboard/invoices'')
      \<and> (\<exists>q. snd (updateInvoice rt i prev fd) =
             [Query q, RevalidatePath ''/dashboard/invoices'', Redirect ''/dashboard/invoices''])
      \<and> filter is_revalidate (snd (updateInvoice rt i prev fd)) = [RevalidatePath ''/dashboard/invoices''])
   \<and> (success (safeParse (AddCustomerSchema rt) (customerFields fd))
      \<and> (\<forall>q. Query q \<in> set (snd (addCustomer rt prev fd)) \<longrightarrow> sql rt q = None) \<longrightarrow>
      fst (addCustomer rt prev fd) = Throw (NextRedirect ''/dashboard/customers'')
      \<and> (\<exists>q. snd (addCustomer rt prev fd) =
             [Query q, RevalidatePath ''/dashboard/customers'', Redirect ''/dashboard/customers''])
      \<and> filter is_revalidate (snd (addCustomer rt prev fd)) = [RevalidatePath ''/dashboard/customers''])"
proof (intro conjI impI)
  assume "success (safeParse (CreateInvoice rt) (invoiceFields fd))
      \<and> (\<forall>q. Query q \<in> set (snd (createInvoice rt prev fd)) \<longrightarrow> sql rt q = None)"
  then have r: "createInvoice rt prev fd =
     (Throw (NextRedirect ''/dashboard/invoices''),
      [Query (INSERT_INTO_invoices (get fd ''customerId'')
                (Num (multiply (ToNumber rt (get fd ''amount'')) (Finite 100)))
                (get fd ''status'') (Str (isoDate (now rt)))),
       RevalidatePath ''/dashboard/invoices'', Redirect ''/dashboard/invoices''])"
    using createInvoice_store_ok by blast
  show "fst (createInvoice rt prev fd) = Throw (NextRedirect ''/dashboard/invoices'')"
    by (simp add: r)
  show "\<exists>q. snd (createInvoice rt prev fd) =
             [Query q, RevalidatePath ''/dashboard/invoices'', Redirect ''/dashboard/invoices'']"
    by (simp add: r)
  show "filter is_revalidate (snd (createInvoice rt prev fd)) = [RevalidatePath ''/dashboard/invoices'']"
    by (simp add: r)
next
  assume "success (safeParse (UpdateInvoice rt) (invoiceFields fd))
      \<and> (\<forall>q. Query q \<in> set (snd (updateInvoice rt i prev fd)) \<longrightarrow> sql rt q = None)"
  then have r: "updateInvoice rt i prev fd =
     (Throw (NextRedirect ''/dashboard/invoices''),
      [Query (UPDATE_invoices (get fd ''customerId'')
                (Num (multiply (ToNumber rt (get fd ''amount'')) (Finite 100)))
                (get fd ''status'') i),
       RevalidatePath ''/dashboard/invoices'', Redirect ''/dashboard/invoices''])"
    using updateInvoice_store_ok by blast
  show "fst (updateInvoice rt i prev fd) = Throw (NextRedirect ''/dashboard/invoices'')"
    by (simp add: r)
  show "\<exists>q. snd (updateInvoice rt i prev fd) =
             [Query q, RevalidatePath ''/dashboard/invoices'', Redirect ''/dashboard/invoices'']"
    by (simp add: r)
  show "filter is_revalidate (snd (updateInvoice rt i prev fd)) = [RevalidatePath ''/dashboard/invoices'']"
    by (simp add: r)
next
  assume "success (safeParse (AddCustomerSchema rt) (customerFields fd))
      \<and> (\<forall>q. Query q \<in> set (snd (addCustomer rt prev fd)) \<longrightarrow> sql rt q = None)"
  then have r: "addCustomer rt prev fd =
     (Throw (NextRedirect ''/dashboard/customers''),
      [Query (INSERT_INTO_customers (get fd ''name'') (get fd ''email'')
                (Str ''/customers/avatar-placeholder.webp'')),
       RevalidatePath ''/dashboard/customers'', Redirect ''/dashboard/customers''])"
    using addCustomer_store_ok by blast
  show "fst (addCustomer rt prev fd) = Throw (NextRedirect ''/dashboard/customers'')"
    by (simp add: r)
  show "\<exists>q. snd (addCustomer rt prev fd) =
             [Query q, RevalidatePath ''/dashboard/customers'', Redirect ''/dashboard/customers'']"
    by (simp add: r)
  show "filter is_revalidate (snd (addCustomer rt prev fd)) = [RevalidatePath ''/dashboard/customers'']"
    by (simp add: r)
qed

theorem invalidate_then_redirect_witness:
  "success (safeParse (CreateInvoice exampleRuntime) (invoiceFields (invoiceForm ''c1'' ''12'' ''paid'')))
   \<and> fst (createInvoice exampleRuntime initialState (invoiceForm ''c1'' ''12'' ''paid''))
        = Throw (NextRedirect ''/dashboard/invoices'')
   \<and> success (safeParse (UpdateInvoice exampleRuntime) (invoiceFields (invoiceForm ''c1'' ''12'' ''paid'')))
   \<and> fst (updateInvoice exampleRuntime ''inv-1'' initialState (invoiceForm ''c1'' ''12'' ''paid''))
        = Throw (NextRedirect ''/dashboard/invoices'')
   \<and> success (safeParse (AddCustomerSchema exampleRuntime) (customerFields (customerForm ''Ada'' ''ada@example.com'')))
   \<and> fst (addCustomer exampleRuntime initialState (customerForm ''Ada'' ''ada@example.com''))
        = Throw (NextRedirect ''/dashboard/customers'')"
  using example_invoice_valid(1) example_invoice_valid(3) example_customer_valid(1)
    invalidate_then_redirect[where rt = exampleRuntime and prev = initialState and i = "''inv-1''"
      and fd = "invoiceForm ''c1'' ''12'' ''paid''"]
    invalidate_then_redirect[where rt = exampleRuntime and prev = initialState
      and fd = "customerForm ''Ada'' ''ada@example.com''"]
  by (simp add: example_sql)

text \<open>
  C5: for a valid invoice the amount bound in the statement should be the validated
  amount times 100. At the submission with amount \<open>1.15\<close> it is not: \<open>Number\<close> reads
  \<open>1.15\<close> as the double nearest to it, the product of that double and 100 is rounded
  again, and \<open>createInvoice\<close> and \<open>updateInvoice\<close> bind
  \<open>8092405580431359 / 2 ^ 46\<close>, which prints as \<open>114.99999999999999\<close>. That is less
  than 115 and is not 100 times the validated amount either. The date bound by
  \<open>createInvoice\<close> is the clock's UTC date.
\<close>

theorem amount_in_cents_at_1_15:
  "success (safeParse (CreateInvoice exampleRuntime) (invoiceFields (invoiceForm ''c1'' ''1.15'' ''paid'')))
   \<and> ToNumber exampleRuntime (get (invoiceForm ''c1'' ''1.15'' ''paid'') ''amount'')
        = Finite (2589569785738035 / 2251799813685248)
   \<and> filter is_query (snd (createInvoice exampleRuntime initialState (invoiceForm ''c1'' ''1.15'' ''paid''))) =
        [Query (INSERT_INTO_invoices (Str ''c1'') (Num (Finite (8092405580431359 / 70368744177664)))
                  (Str ''paid'') (Str ''2024-03-09''))]
   \<and> filter is_query (snd (updateInvoice exampleRuntime ''inv-1'' initialState (invoiceForm ''c1'' ''1.15'' ''paid''))) =
        [Query (UPDATE_invoices (Str ''c1'') (Num (Finite (8092405580431359 / 70368744177664)))
                  (Str ''paid'') ''inv-1'')]
   \<and> (8092405580431359 / 70368744177664 :: rat) < 115
   \<and> (8092405580431359 / 70368744177664 :: rat) \<noteq> 2589569785738035 / 2251799813685248 * 100"
proof -
  have v: "success (safeParse (CreateInvoice exampleRuntime) (invoiceFields (invoiceForm ''c1'' ''1.15'' ''paid'')))"
    unfolding example_fields CreateInvoice_success
    by (simp add: example_decimal num_lt_def)
  then have u: "success (safeParse (UpdateInvoice exampleRuntime) (invoiceFields (invoiceForm ''c1'' ''1.15'' ''paid'')))"
    by (simp only: UpdateInvoice_shape)
  have n: "ToNumber exampleRuntime (get (invoiceForm ''c1'' ''1.15'' ''paid'') ''amount'')
        = Finite (2589569785738035 / 2251799813685248)"
    by (simp add: example_gets example_decimal)
  have c: "filter is_query (snd (createInvoice exampleRuntime initialState (invoiceForm ''c1'' ''1.15'' ''paid''))) =
        [Query (INSERT_INTO_invoices (Str ''c1'') (Num (Finite (8092405580431359 / 70368744177664)))
                  (Str ''paid'') (Str ''2024-03-09''))]"
    unfolding createInvoice_outcome[OF v] n example_product
    by (simp add: example_sql example_gets example_date)
  have d: "filter is_query (snd (updateInvoice exampleRuntime ''inv-1'' initialState (invoiceForm ''c1'' ''1.15'' ''paid''))) =
        [Query (UPDATE_invoices (Str ''c1'') (Num (Finite (8092405580431359 / 70368744177664)))
                  (Str ''paid'') ''inv-1'')]"
    unfolding updateInvoice_outcome[OF u] n example_product
    by (simp add: example_sql example_gets)
  have l: "(8092405580431359 / 70368744177664 :: rat) < 115"
    by simp
  have m: "(8092405580431359 / 70368744177664 :: rat) \<noteq> 2589569785738035 / 2251799813685248 * 100"
    by simp
  show ?thesis
    using v n c d l m by blast
qed

text \<open>
  C6: whenever validation succeeds, the one statement \<open>addCustomer\<close> sends binds the
  placeholder path as the image reference, whatever the submission holds.
\<close>

theorem persisted_image_is_placeholder:
  "success (safeParse (AddCustomerSchema rt) (customerFields fd)) \<longrightarrow>
     filter is_query (snd (addCustomer rt prev fd)) =
       [Query (INSERT_INTO_customers (get fd ''name'') (get fd ''email'')
                 (Str ''/customers/avatar-placeholder.webp''))]"
proof
  assume a: "success (safeParse (AddCustomerSchema rt) (customerFields fd))"
  show "filter is_query (snd (addCustomer rt prev fd)) =
       [Query (INSERT_INTO_customers (get fd ''name'') (get fd ''email'')
                 (Str ''/customers/avatar-placeholder.webp''))]"
    unfolding addCustomer_outcome[OF a] by (simp split: option.splits)
qed

theorem persisted_image_is_placeholder_witness:
  "success (safeParse (AddCustomerSchema exampleRuntime)
      (customerFields ((''image_url'', TextEntry ''/mine.png'') # customerForm ''Ada'' ''ada@example.com'')))
   \<and> filter is_query (snd (addCustomer exampleRuntime initialState
        ((''image_url'', TextEntry ''/mine.png'') # customerForm ''Ada'' ''ada@example.com''))) =
       [Query (INSERT_INTO_customers (Str ''Ada'') (Str ''ada@example.com'')
                 (Str ''/customers/avatar-placeholder.webp''))]"
proof -
  have f: "customerFields ((''image_url'', TextEntry ''/mine.png'') # customerForm ''Ada'' ''ada@example.com'')
             = [(''name'', Str ''Ada''), (''email'', Str ''ada@example.com'')]"
    by (simp add: customerFields_def customerForm_def)
  have h: "success (safeParse (AddCustomerSchema exampleRuntime)
      (customerFields ((''image_url'', TextEntry ''/mine.png'') # customerForm ''Ada'' ''ada@example.com'')))"
    unfolding f AddCustomerSchema_success by (simp add: example_email)
  show ?thesis
    using h persisted_image_is_placeholder[where rt = exampleRuntime and prev = initialState
      and fd = "(''image_url'', TextEntry ''/mine.png'') # customerForm ''Ada'' ''ada@example.com''"]
    by (simp add: customerForm_def)
qed

text \<open>
  C7: \<open>authenticate\<close> returns \<open>Invalid credentials.\<close> when the sign-in raises an
  \<open>AuthError\<close> of type \<open>CredentialsSignin\<close>, \<open>Something went wrong.\<close> when it raises
  an \<open>AuthError\<close> of any other type, completes without a value when the sign-in
  succeeds, and throws again, unchanged, whatever else the sign-in raised.
\<close>

theorem authenticate_outcomes:
  "(signIn rt ''credentials'' fd = Some (AuthError ''CredentialsSignin'')
      \<longrightarrow> fst (authenticate rt prev fd) = Return ''Invalid credentials.'')
   \<and> (signIn rt ''credentials'' fd = Some (AuthError t) \<and> t \<noteq> ''CredentialsSignin''
      \<longrightarrow> fst (authenticate rt prev fd) = Return ''Something went wrong.'')
   \<and> (signIn rt ''credentials'' fd = None \<longrightarrow> fst (authenticate rt prev fd) = Normal)
   \<and> (signIn rt ''credentials'' fd = Some (NextRedirect p)
      \<longrightarrow> fst (authenticate rt prev fd) = Throw (NextRedirect p))
   \<and> (signIn rt ''credentials'' fd = Some (Error m)
      \<longrightarrow> fst (authenticate rt prev fd) = Throw (Error m))"
  by (simp add: authenticate_def try_catch_def await_signIn_def return_def throw_def)

theorem authenticate_outcomes_witness:
  "fst (authenticate (signInRaising (AuthError ''CredentialsSignin'')) None []) = Return ''Invalid credentials.''
   \<and> fst (authenticate (signInRaising (AuthError ''CallbackRouteError'')) None []) = Return ''Something went wrong.''
   \<and> fst (authenticate exampleRuntime None []) = Normal
   \<and> fst (authenticate (signInRaising (NextRedirect ''/dashboard'')) None []) = Throw (NextRedirect ''/dashboard'')
   \<and> fst (authenticate (signInRaising (Error ''fetch failed'')) None []) = Throw (Error ''fetch failed'')"
  using authenticate_outcomes[where rt = "signInRaising (AuthError ''CredentialsSignin'')" and fd = "[]" and prev = None]
        authenticate_outcomes[where rt = "signInRaising (AuthError ''CallbackRouteError'')" and fd = "[]" and prev = None
                                and t = "''CallbackRouteError''"]
        authenticate_outcomes[where rt = exampleRuntime and fd = "[]" and prev = None]
        authenticate_outcomes[where rt = "signInRaising (NextRedirect ''/dashboard'')" and fd = "[]" and prev = None
                                and p = "''/dashboard''"]
        authenticate_outcomes[where rt = "signInRaising (Error ''fetch failed'')" and fd = "[]" and prev = None
                                and m = "''fetch failed''"]
  by (simp add: signInRaising_def exampleRuntime_def)

text \<open>
  C8, amended: \<open>deleteInvoice\<close> and \<open>deleteCustomer\<close> validate nothing and send exactly
  one delete statement for the given id. When the store accepts it they invalidate the
  listing path and complete; they never redirect. When the store raises an error they
  do not catch it: the error is thrown to the caller and nothing is invalidated.
\<close>

theorem delete_outcomes:
  "(sql rt (DELETE_FROM_invoices i) = None \<longrightarrow>
      deleteInvoice rt i =
        (Normal, [Query (DELETE_FROM_invoices i), RevalidatePath ''/dashboard/invoices'']))
   \<and> (sql rt (DELETE_FROM_invoices i) = Some e \<longrightarrow>
      deleteInvoice rt i = (Throw e, [Query (DELETE_FROM_invoices i)]))
   \<and> (sql rt (DELETE_FROM_customers i) = None \<longrightarrow>
      deleteCustomer rt i =
        (Normal, [Query (DELETE_FROM_customers i), RevalidatePath ''/dashboard/customers'']))
   \<and> (sql rt (DELETE_FROM_customers i) = Some e' \<longrightarrow>
      deleteCustomer rt i = (Throw e', [Query (DELETE_FROM_customers i)]))
   \<and> filter is_query (snd (deleteInvoice rt i)) = [Query (DELETE_FROM_invoices i)]
   \<and> filter is_query (snd (deleteCustomer rt i)) = [Query (DELETE_FROM_customers i)]
   \<and> filter is_redirect (snd (deleteInvoice rt i)) = []
   \<and> filter is_redirect (snd (deleteCustomer rt i)) = []"
  by (simp add: deleteInvoice_outcome deleteCustomer_outcome split: option.splits)

theorem delete_outcomes_witness:
  "deleteInvoice exampleRuntime ''inv-1'' =
     (Normal, [Query (DELETE_FROM_invoices ''inv-1''), RevalidatePath ''/dashboard/invoices''])
   \<and> deleteInvoice failingStore ''inv-1'' =
     (Throw (Error ''connection terminated''), [Query (DELETE_FROM_invoices ''inv-1'')])
   \<and> deleteCustomer exampleRuntime ''cust-1'' =
     (Normal, [Query (DELETE_FROM_customers ''cust-1''), RevalidatePath ''/dashboard/customers''])
   \<and> deleteCustomer failingStore ''cust-1'' =
     (Throw (Error ''connection terminated''), [Query (DELETE_FROM_customers ''cust-1'')])"
  using delete_outcomes[where rt = exampleRuntime and i = "''inv-1''"]
    delete_outcomes[where rt = failingStore and i = "''inv-1''" and e = "Error ''connection terminated''"]
    delete_outcomes[where rt = exampleRuntime and i = "''cust-1''"]
    delete_outcomes[where rt = failingStore and i = "''cust-1''" and e' = "Error ''connection terminated''"]
  by (simp add: example_sql)

text \<open>
  Against C8 as stated: with a store that refuses the statement, both delete actions
  throw the store's error and return no state.
\<close>

theorem delete_store_error_counterexample:
  "deleteInvoice failingStore ''inv-1'' =
     (Throw (Error ''connection terminated''), [Query (DELETE_FROM_invoices ''inv-1'')])
   \<and> returned (deleteInvoice failingStore ''inv-1'') = None
   \<and> deleteCustomer failingStore ''cust-1'' =
     (Throw (Error ''connection terminated''), [Query (DELETE_FROM_customers ''cust-1'')])
   \<and> returned (deleteCustomer failingStore ''cust-1'') = None"
  by (simp add: deleteInvoice_outcome deleteCustomer_outcome example_sql)

text \<open>
  C9, amended: when a field that an action reads is absent from the submission, the
  raw value the action extracts for it is \<open>null\<close>, validation fails, and the action
  returns the state of a failed validation, with no effect.
\<close>

theorem absent_field_is_null_and_fails:
  "(k \<in> {''customerId'', ''amount'', ''status''} \<and> k \<notin> fst ` set fd \<longrightarrow>
      get fd k = Null
      \<and> \<not> success (safeParse (CreateInvoice rt) (invoiceFields fd))
      \<and> \<not> success (safeParse (UpdateInvoice rt) (invoiceFields fd))
      \<and> (\<exists>e. createInvoice rt prev fd =
            (Return \<lparr>errors = Some e, values_field = Some (invoiceFields fd),
                     message = Some ''Missing Fields. Failed to Create Invoice.''\<rparr>, []))
      \<and> (\<exists>e. updateInvoice rt i prev fd =
            (Return \<lparr>errors = Some e, values_field = Some (invoiceFields fd),
                     message = Some ''Missing Fields. Failed to Update Invoice.''\<rparr>, [])))
   \<and> (k' \<in> {''name'', ''email''} \<and> k' \<notin> fst ` set fd \<longrightarrow>
      get fd k' = Null
      \<and> \<not> success (safeParse (AddCustomerSchema rt) (customerFields fd))
      \<and> (\<exists>e. addCustomer rt prev fd =
            (Return \<lparr>errors = Some e, values_field = Some (customerFields fd),
                     message = Some ''Missing Fields. Failed to Add Customer.''\<rparr>, [])))"
proof (intro conjI impI)
  assume a: "k \<in> {''customerId'', ''amount'', ''status''} \<and> k \<notin> fst ` set fd"
  then show n: "get fd k = Null" by (simp add: get_absent)
  from a n show c: "\<not> success (safeParse (CreateInvoice rt) (invoiceFields fd))"
    using absent_invoice_field by blast
  then show u: "\<not> success (safeParse (UpdateInvoice rt) (invoiceFields fd))"
    by (simp add: UpdateInvoice_shape)
  from c show "\<exists>e. createInvoice rt prev fd =
            (Return \<lparr>errors = Some e, values_field = Some (invoiceFields fd),
                     message = Some ''Missing Fields. Failed to Create Invoice.''\<rparr>, [])"
    using createInvoice_invalid unfolding not_success by blast
  from u show "\<exists>e. updateInvoice rt i prev fd =
            (Return \<lparr>errors = Some e, values_field = Some (invoiceFields fd),
                     message = Some ''Missing Fields. Failed to Update Invoice.''\<rparr>, [])"
    using updateInvoice_invalid unfolding not_success by blast
next
  assume a: "k' \<in> {''name'', ''email''} \<and> k' \<notin> fst ` set fd"
  then show n: "get fd k' = Null" by (simp add: get_absent)
  from a n show c: "\<not> success (safeParse (AddCustomerSchema rt) (customerFields fd))"
    using absent_customer_field by blast
  then show "\<exists>e. addCustomer rt prev fd =
            (Return \<lparr>errors = Some e, values_field = Some (customerFields fd),
                     message = Some ''Missing Fields. Failed to Add Customer.''\<rparr>, [])"
    using addCustomer_invalid unfolding not_success by blast
qed

theorem absent_field_is_null_and_fails_witness:
  "''customerId'' \<in> {''customerId'', ''amount'', ''status''}
   \<and> ''customerId'' \<notin> fst ` set [(''amount'', TextEntry ''12''), (''status'', TextEntry ''paid'')]
   \<and> get [(''amount'', TextEntry ''12''), (''status'', TextEntry ''paid'')] ''customerId'' = Null
   \<and> \<not> success (safeParse (CreateInvoice exampleRuntime)
          (invoiceFields [(''amount'', TextEntry ''12''), (''status'', TextEntry ''paid'')]))
   \<and> ''email'' \<in> {''name'', ''email''}
   \<and> ''email'' \<notin> fst ` set [(''name'', TextEntry ''Ada'')]
   \<and> get [(''name'', TextEntry ''Ada'')] ''email'' = Null
   \<and> \<not> success (safeParse (AddCustomerSchema exampleRuntime) (customerFields [(''name'', TextEntry ''Ada'')]))"
  using absent_field_is_null_and_fails[where rt = exampleRuntime and k = "''customerId''" and k' = "''email''"
      and fd = "[(''amount'', TextEntry ''12''), (''status'', TextEntry ''paid'')]"]
    absent_field_is_null_and_fails[where rt = exampleRuntime and k = "''customerId''" and k' = "''email''"
      and fd = "[(''name'', TextEntry ''Ada'')]"]
  by simp

text \<open>
  Against C9 as stated: for a submission without \<open>customerId\<close> the extracted raw value
  is \<open>null\<close>, which is neither the empty string nor \<open>undefined\<close>.
\<close>

theorem absent_field_counterexample:
  "get [(''amount'', TextEntry ''12''), (''status'', TextEntry ''paid'')] ''customerId'' = Null
   \<and> get [(''amount'', TextEntry ''12''), (''status'', TextEntry ''paid'')] ''customerId'' \<noteq> Str ''''
   \<and> get [(''amount'', TextEntry ''12''), (''status'', TextEntry ''paid'')] ''customerId'' \<noteq> Undefined
   \<and> lookup (invoiceFields [(''amount'', TextEntry ''12''), (''status'', TextEntry ''paid'')]) ''customerId'' = Null"
  by (simp add: invoiceFields_def)

text \<open>
  C10: \<open>createInvoice\<close> and \<open>updateInvoice\<close> validate alike. The two schemas give the
  same result on every input object, so one succeeds exactly when the other does, and
  for every submission the two actions return the same messages under every field name.
\<close>

theorem create_update_validate_alike:
  "safeParse (CreateInvoice rt) input = safeParse (UpdateInvoice rt) input
   \<and> errors_of (createInvoice rt prev fd) k = errors_of (updateInvoice rt i prev' fd) k"
proof
  show "safeParse (CreateInvoice rt) input = safeParse (UpdateInvoice rt) input"
    by (simp add: UpdateInvoice_shape)
next
  show "errors_of (createInvoice rt prev fd) k = errors_of (updateInvoice rt i prev' fd) k"
  proof (cases "safeParse (CreateInvoice rt) (invoiceFields fd)")
    case (Inl issues)
    then have "safeParse (UpdateInvoice rt) (invoiceFields fd) = Inl issues"
      by (simp add: UpdateInvoice_shape)
    then show ?thesis
      using Inl by (simp add: createInvoice_invalid updateInvoice_invalid returned_errors)
  next
    case (Inr data)
    then have c: "success (safeParse (CreateInvoice rt) (invoiceFields fd))"
      and u: "success (safeParse (UpdateInvoice rt) (invoiceFields fd))"
      by (simp_all add: UpdateInvoice_shape)
    have "errors_of (createInvoice rt prev fd) k = None"
      unfolding createInvoice_valid[OF c]
      by (cases "sql rt (INSERT_INTO_invoices (get fd ''customerId'')
               (Num (multiply (ToNumber rt (get fd ''amount'')) (Finite 100)))
               (get fd ''status'') (Str (isoDate (now rt))))")
         (simp_all add: persist_ok persist_fail errors_of_def)
    moreover have "errors_of (updateInvoice rt i prev' fd) k = None"
      unfolding updateInvoice_valid[OF u]
      by (cases "sql rt (UPDATE_invoices (get fd ''customerId'')
               (Num (multiply (ToNumber rt (get fd ''amount'')) (Finite 100)))
               (get fd ''status'') i)")
         (simp_all add: persist_ok persist_fail errors_of_def)
    ultimately show ?thesis by simp
  qed
qed

end
